theory Spec2Isabelle
  imports Main
begin

section \<open>Python strings, values and dictionaries\<close>

text \<open>
  The exceptions that the modelled code can raise.  \<open>ValueError\<close> is what a file object
  raises when it is written after \<open>close()\<close>, \<open>KeyError\<close> what a dictionary raises on
  a missing key, \<open>TypeError\<close> what \<open>os.path.dirname\<close> raises when it is handed \<open>None\<close>,
  \<open>NotImplementedError\<close> what the two stub simulators raise, and \<open>EmptySequence\<close> is
  the failure of the experiment generator on an empty candidate sequence.
\<close>

datatype error = ValueError | KeyError | TypeError | NotImplementedError | EmptySequence

definition nl :: string where
  "nl = [CHR 0x0A]"

definition tab :: string where
  "tab = [CHR 0x09]"

definition dq :: string where
  "dq = [CHR 0x22]"

text \<open>\<open>str(n)\<close> and \<open>'%i' % n\<close> for a Python integer: decimal digits, with a sign.\<close>

fun str_nat :: "nat \<Rightarrow> string" where
  "str_nat n =
     (if n < 10 then [''0123456789'' ! n]
      else str_nat (n div 10) @ [''0123456789'' ! (n mod 10)])"

declare str_nat.simps [simp del]

definition str_int :: "int \<Rightarrow> string" where
  "str_int i = (if i < 0 then ''-'' @ str_nat (nat (- i)) else str_nat (nat i))"

text \<open>\<open>sep.join(xs)\<close>.\<close>

fun str_join :: "string \<Rightarrow> string list \<Rightarrow> string" where
  "str_join s [] = []"
| "str_join s [x] = x"
| "str_join s (x # y # ys) = x @ s @ str_join s (y # ys)"

text \<open>The slice \<open>s[1:-1]\<close>: the string without its first and its last character.\<close>

definition slice_1_m1 :: "string \<Rightarrow> string" where
  "slice_1_m1 s = butlast (drop 1 s)"

text \<open>\<open>s.endswith(suffix)\<close>.\<close>

definition endswith :: "string \<Rightarrow> string \<Rightarrow> bool" where
  "endswith s suffix =
     (length suffix \<le> length s \<and> drop (length s - length suffix) s = suffix)"

text \<open>
  \<open>s.replace('%x', exe)\<close>: every occurrence of \<open>%x\<close>, scanned from the left, becomes
  \<open>exe\<close>.
\<close>

fun replace_pct_x :: "string \<Rightarrow> string \<Rightarrow> string" where
  "replace_pct_x exe (a # b # cs) =
     (if a = CHR ''%'' \<and> b = CHR ''x'' then exe @ replace_pct_x exe cs
      else a # replace_pct_x exe (b # cs))"
| "replace_pct_x exe cs = cs"

text \<open>
  The values that parameters and command options hold: \<open>None\<close>, integers, strings and
  nested dictionaries.  A dictionary is an association list in insertion order.
\<close>

datatype pyval = PNone | PInt int | PStr string | PDict "(string \<times> pyval) list"

type_synonym pydict = "(string \<times> pyval) list"

text \<open>
  \<open>d[k] = v\<close> (and the keyword of \<open>dict(d, k=v)\<close>): a key that is present keeps its place
  and takes the new value, a new key goes to the end.
\<close>

fun dict_set :: "('k \<times> 'v) list \<Rightarrow> 'k \<Rightarrow> 'v \<Rightarrow> ('k \<times> 'v) list" where
  "dict_set [] k v = [(k, v)]"
| "dict_set ((k', v') # d) k v =
     (if k' = k then (k, v) # d else (k', v') # dict_set d k v)"

text \<open>\<open>d[k]\<close>: raises \<open>KeyError\<close> on a missing key.\<close>

definition dict_get :: "('k \<times> 'v) list \<Rightarrow> 'k \<Rightarrow> error + 'v" where
  "dict_get d k = (case map_of d k of None \<Rightarrow> Inl KeyError | Some v \<Rightarrow> Inr v)"

subsection \<open>ParamDict\<close>

text \<open>
  Modelled from the spec: the class \<open>ParamDict\<close> of \<open>modelicares.exps\<close>, which
  \<open>simulators.py\<close> imports and whose \<open>__str__\<close> the writer calls, is not among the
  sources.  The spec's data model says that it "serializes to the proprietary scripting
  syntax by joining "key=value" pairs; nested mappings flatten to dotted keys; entries
  with an absent/null value are omitted", in insertion order.  \<open>flatten\<close> is the
  flattening with the omission.
\<close>

fun flatten :: "string \<Rightarrow> pydict \<Rightarrow> pydict" where
  "flatten p [] = []"
| "flatten p ((k, PDict d) # rest) = flatten (p @ k @ ''.'') d @ flatten p rest"
| "flatten p ((k, PNone) # rest) = flatten p rest"
| "flatten p ((k, v) # rest) = (p @ k, v) # flatten p rest"

text \<open>
  Modelled from the spec: how \<open>ParamDict\<close> writes one value.  The spec only says
  "key=value"; the examples in the docstring of \<open>dymola_script\<close> show an integer in
  decimal (\<open>stopTime=2500\<close>) and a string as it is (\<open>problem="..."\<close>, where the quotes
  are those that \<open>run\<close> itself puts around the model).
\<close>

fun value_str :: "pyval \<Rightarrow> string" where
  "value_str (PInt i) = str_int i"
| "value_str (PStr s) = s"
| "value_str PNone = []"
| "value_str (PDict d) = []"

definition item_str :: "string \<times> pyval \<Rightarrow> string" where
  "item_str kv = fst kv @ ''='' @ value_str (snd kv)"

text \<open>
  Modelled from the spec: \<open>str(ParamDict(d))\<close>, the "key=value" pairs joined.  The
  delimiters are those of the docstring of \<open>dymola_script\<close> and of the slices \<open>[1:-1]\<close>
  in \<open>run\<close>: the pairs are separated by a comma and a blank and enclosed in
  parentheses, and a dictionary with nothing to write gives the empty string (the model
  of the first example is written without parentheses, its option column is empty in the
  third).  The tables of that docstring print a dotted name as nested modifiers
  (\<open>C1(C=8)\<close>) and \<open>problem\<close> before the options; the spec's wording gives dotted
  keys in insertion order, which is what is modelled.  No statement below depends on
  the layout or the order of the keys except through \<open>ParamDict_str\<close> itself.
\<close>

definition ParamDict_str :: "pydict \<Rightarrow> string" where
  "ParamDict_str d =
     (let items = flatten [] d
      in if items = [] then []
         else ''('' @ str_join '', '' (map item_str items) @ '')'')"

section \<open>The world: files, standard output and list objects\<close>

text \<open>
  The effects of the program are kept as the sequence of calls that it completed on its
  environment: \<open>print\<close>, \<open>open(path, 'w')\<close>, \<open>f.write(s)\<close> and \<open>f.close()\<close>.  A file
  object is a handle, a number that \<open>open\<close> hands out fresh.  What has been written
  through a handle and whether it has been closed are read from the sequence.

  Lists are mutable objects: the heap maps the address of a list object to its current
  content, so that two references to one list see each other's updates.
\<close>

datatype event = Print string | Open nat string | Write nat string | Close nat

record world =
  events :: "event list"
  heap :: "nat \<Rightarrow> string list"

fun ev_bound :: "event \<Rightarrow> nat" where
  "ev_bound (Print s) = 0"
| "ev_bound (Open h p) = Suc h"
| "ev_bound (Write h s) = Suc h"
| "ev_bound (Close h) = Suc h"

primrec next_handle :: "event list \<Rightarrow> nat" where
  "next_handle [] = 0"
| "next_handle (e # es) = max (ev_bound e) (next_handle es)"

definition closed :: "nat \<Rightarrow> event list \<Rightarrow> bool" where
  "closed h evs = (Close h \<in> set evs)"

fun written_by :: "nat \<Rightarrow> event \<Rightarrow> string list" where
  "written_by h (Write h' s) = (if h' = h then [s] else [])"
| "written_by h e = []"

definition written :: "nat \<Rightarrow> event list \<Rightarrow> string list" where
  "written h evs = concat (map (written_by h) evs)"

definition py_print :: "string \<Rightarrow> world \<Rightarrow> world" where
  "py_print s w = w\<lparr>events := events w @ [Print s]\<rparr>"

definition file_open :: "string \<Rightarrow> world \<Rightarrow> nat \<times> world" where
  "file_open path w =
     (let h = next_handle (events w) in (h, w\<lparr>events := events w @ [Open h path]\<rparr>))"

text \<open>Writing to a closed file raises \<open>ValueError\<close> and writes nothing.\<close>

definition file_write :: "nat \<Rightarrow> string \<Rightarrow> world \<Rightarrow> (error + unit) \<times> world" where
  "file_write h s w =
     (if closed h (events w) then (Inl ValueError, w)
      else (Inr (), w\<lparr>events := events w @ [Write h s]\<rparr>))"

definition file_close :: "nat \<Rightarrow> world \<Rightarrow> world" where
  "file_close h w = w\<lparr>events := events w @ [Close h]\<rparr>"

text \<open>Consecutive \<open>write\<close> calls on one file: the first that raises ends the sequence.\<close>

fun file_writes :: "nat \<Rightarrow> string list \<Rightarrow> world \<Rightarrow> (error + unit) \<times> world" where
  "file_writes h [] w = (Inr (), w)"
| "file_writes h (s # ss) w =
     (case file_write h s w of
        (Inl e, w') \<Rightarrow> (Inl e, w')
      | (Inr u, w') \<Rightarrow> file_writes h ss w')"

text \<open>
  What the code takes from the operating system and from modules that are not part of
  the sources: \<open>os.name\<close>, \<open>os.path.sep\<close>, \<open>os.getcwd()\<close>, the ISO form of
  \<open>date.today()\<close>, \<open>modelicares.util.expand_path\<close>, and \<open>dirname\<close>, \<open>basename\<close>,
  \<open>normpath\<close> and \<open>join\<close> of \<open>os.path\<close>.
\<close>

record os_env =
  os_name :: string
  sep :: string
  getcwd :: string
  today :: string
  expand_path :: "string \<Rightarrow> string"
  dirname :: "string \<Rightarrow> string"
  basename :: "string \<Rightarrow> string"
  normpath :: "string \<Rightarrow> string"
  path_join :: "string \<Rightarrow> string \<Rightarrow> string"

section \<open>The script writer \<open>dymola_script\<close>\<close>

text \<open>
  The instance of \<open>dymola_script\<close>: the six attributes that \<open>__init__\<close> binds, named as
  in the source, with \<open>u_\<close> for the leading underscore (which an Isabelle name cannot
  start with).  The two files are handles, the list of result files is the address of a list
  object.
\<close>

record dymola_script =
  u_command :: string
  u_run_log :: nat
  u_mos :: nat
  u_options :: pydict
  u_results :: nat
  n_runs :: int

text \<open>
  The default of the argument \<open>results\<close> is one list object, made when the \<open>def\<close>
  statement of \<open>__init__\<close> is executed; every call that omits the argument receives that
  same object.  \<open>dymosim.__init__\<close> has a default list of its own.  \<open>module_heap\<close> is
  the heap when the module has been imported.
\<close>

definition default_results :: nat where
  "default_results = 0"

definition dymosim_default_results :: nat where
  "dymosim_default_results = 1"

definition module_heap :: "nat \<Rightarrow> string list" where
  "module_heap =
     ((\<lambda>a. [])
        (default_results :=
           [''dsin.txt'', ''dslog.txt'', ''dsres.mat'', ''dymolalg.txt'', ''dymosim%x''],
         dymosim_default_results :=
           [''dsin.txt'', ''dslog.txt'', ''dsres.mat'', ''dymosim%x'', ''dymolalg.txt'']))"

text \<open>The body of the loop over \<open>packages\<close> in \<open>__init__\<close>.\<close>

definition package_lines :: "os_env \<Rightarrow> string \<Rightarrow> string \<Rightarrow> string list" where
  \<open>package_lines env working_dir package =
     (if endswith package ''.mos''
      then [''cd("'' @ dirname env package @ ''");'' @ nl,
            ''RunScript("'' @ basename env package @ ''");'' @ nl]
      else [if endswith package ''.mo''
            then ''openModel("'' @ package @ ''");'' @ nl
            else ''openModel("'' @ path_join env package ''package.mo'' @ ''");'' @ nl,
            ''cd("'' @ working_dir @ ''");'' @ nl])\<close>

text \<open>The strings that \<open>__init__\<close> writes to the script, one per \<open>write\<close>, in order.\<close>

definition header_lines :: "os_env \<Rightarrow> string \<Rightarrow> string list \<Rightarrow> string \<Rightarrow> string list" where
  \<open>header_lines env working_dir packages results_dir =
     [''// Dymola script written by ModelicaRes '' @ today env @ nl,
      ''import Modelica.Utilities.Files.copy;'' @ nl,
      ''import Modelica.Utilities.Files.createDirectory;'' @ nl,
      ''Advanced.TranslationInCommandLog = true "Also include translation log in command log";''
        @ nl,
      ''cd("'' @ working_dir @ ''");'' @ nl]
     @ concat (map (package_lines env working_dir) packages)
     @ [''destination = "'' @ normpath env results_dir @ sep env @ ''";'' @ nl @ nl]\<close>

definition run_log_header :: string where
  "run_log_header =
     ''Run #'' @ tab @ ''Command'' @ tab @ ''Options'' @ tab @ ''Model & parameters'' @ nl"

text \<open>
  \<open>dymola_script.__init__\<close>.  The argument \<open>results\<close> is \<open>None\<close> when the caller omits it
  and the address of the caller's list otherwise; the loop over \<open>enumerate(results)\<close>
  assigns to every index of that list, which is an update of the list object in the
  heap.  \<open>**options\<close> is a dictionary of the call's own.
\<close>

definition dymola_script_init ::
  "os_env \<Rightarrow> string \<Rightarrow> string \<Rightarrow> string option \<Rightarrow> nat option \<Rightarrow> string list \<Rightarrow> pydict
     \<Rightarrow> world \<Rightarrow> (error + dymola_script) \<times> world" where
  "dymola_script_init env fname0 command working_dir0 results0 packages options w0 =
     (let fname = expand_path env fname0;
          working_dir = (case working_dir0 of None \<Rightarrow> getcwd env
                         | Some d \<Rightarrow> expand_path env d);
          results_dir = dirname env fname;
          exe = (if os_name env = ''nt'' then ''.exe'' else []);
          results = (case results0 of None \<Rightarrow> default_results | Some a \<Rightarrow> a);
          w1 = w0\<lparr>heap := (heap w0)(results := map (replace_pct_x exe) (heap w0 results))\<rparr>;
          w2 = py_print ''Starting to write the Dymola script...'' w1;
          (mos, w3) = file_open fname w2
      in case file_writes mos (header_lines env working_dir packages results_dir) w3 of
           (Inl e, w4) \<Rightarrow> (Inl e, w4)
         | (Inr u, w4) \<Rightarrow>
             (let (run_log, w5) = file_open (path_join env results_dir ''runs.tsv'') w4
              in case file_write run_log run_log_header w5 of
                   (Inl e, w6) \<Rightarrow> (Inl e, w6)
                 | (Inr u, w6) \<Rightarrow>
                     (Inr \<lparr>u_command = command, u_run_log = run_log, u_mos = mos,
                           u_options = options, u_results = results, n_runs = 0\<rparr>, w6)))"

definition dymola_script_enter :: "dymola_script \<Rightarrow> dymola_script" where
  "dymola_script_enter self = self"

text \<open>
  \<open>dymola_script.__exit__\<close>.  The details of the exception, if the body raised one, are
  received and not used.  The method returns \<open>None\<close>.
\<close>

definition dymola_script_exit ::
  "dymola_script \<Rightarrow> error option \<Rightarrow> world \<Rightarrow> (error + unit) \<times> world" where
  "dymola_script_exit self exc_details w0 =
     (case file_write (u_mos self) (''exit();'' @ nl) w0 of
        (Inl e, w1) \<Rightarrow> (Inl e, w1)
      | (Inr u, w1) \<Rightarrow>
          (Inr (), py_print ''Finished writing the Dymola script.''
                     (file_close (u_run_log self) (file_close (u_mos self) w1))))"

text \<open>The strings that one \<open>run\<close> call writes to the script, one per \<open>write\<close>, in order.\<close>

definition run_lines :: "os_env \<Rightarrow> int \<Rightarrow> string \<Rightarrow> string list \<Rightarrow> string list" where
  \<open>run_lines env n call results =
     [''// Run '' @ str_int n @ nl,
      ''ok = '' @ call @ '';'' @ nl,
      ''if ok then'' @ nl,
      ''    savelog();'' @ nl,
      ''    dest = destination + "'' @ str_int n @ sep env @ ''";'' @ nl,
      ''    createDirectory(dest);'' @ nl]
     @ map (\<lambda>result. ''    copy("'' @ result @ ''", dest + "'' @ result @ ''", true);'' @ nl)
         results
     @ [''end if;'' @ nl,
        ''clearlog();'' @ nl @ nl]\<close>

text \<open>
  \<open>problem = '"%s%s"' % (model, ParamDict(params)) if model else None\<close>: \<open>None\<close> and the
  empty string are the models that count as false.
\<close>

definition problem_of :: "string option \<Rightarrow> pydict \<Rightarrow> string option" where
  "problem_of model params =
     (case model of
        None \<Rightarrow> None
      | Some m \<Rightarrow> if m = [] then None else Some (dq @ m @ ParamDict_str params @ dq))"

text \<open>\<open>'%s%s' % (command, ParamDict(options, problem=problem))\<close>.\<close>

definition call_of :: "string \<Rightarrow> pydict \<Rightarrow> string option \<Rightarrow> string" where
  "call_of command options problem =
     command @ ParamDict_str
       (dict_set options ''problem'' (case problem of None \<Rightarrow> PNone | Some p \<Rightarrow> PStr p))"

text \<open>The line that one \<open>run\<close> call writes to the run log.\<close>

definition log_line :: "int \<Rightarrow> string \<Rightarrow> pydict \<Rightarrow> string option \<Rightarrow> string" where
  "log_line n command options problem =
     str_join tab
       [str_int n, command, slice_1_m1 (ParamDict_str options),
        (case problem of None \<Rightarrow> [] | Some p \<Rightarrow> if p = [] then [] else slice_1_m1 p)]
     @ nl"

text \<open>
  \<open>dymola_script.run\<close>.  The counter is incremented first, so it stays incremented when
  a later \<open>write\<close> raises.  The list of result files is read from the heap when the
  call runs.
\<close>

definition run ::
  "os_env \<Rightarrow> string option \<Rightarrow> pydict \<Rightarrow> dymola_script \<Rightarrow> world
     \<Rightarrow> (error + unit) \<times> dymola_script \<times> world" where
  "run env model params self0 w0 =
     (let self = self0\<lparr>n_runs := n_runs self0 + 1\<rparr>;
          n = n_runs self;
          mos = u_mos self;
          command = u_command self;
          options = u_options self;
          problem = problem_of model params;
          call = call_of command options problem
      in case file_writes mos (run_lines env n call (heap w0 (u_results self))) w0 of
           (Inl e, w1) \<Rightarrow> (Inl e, self, w1)
         | (Inr u, w1) \<Rightarrow>
             (case file_write (u_run_log self) (log_line n command options problem) w1 of
                (Inl e, w2) \<Rightarrow> (Inl e, self, w2)
              | (Inr u, w2) \<Rightarrow>
                  (Inr (), self,
                   py_print (''Run '' @ str_int n @ '':  '' @ call) w2)))"

text \<open>A sequence of \<open>run\<close> calls, each with its model and parameters; an exception ends it.\<close>

fun runs ::
  "os_env \<Rightarrow> (string option \<times> pydict) list \<Rightarrow> dymola_script \<Rightarrow> world
     \<Rightarrow> (error + unit) \<times> dymola_script \<times> world" where
  "runs env [] self w = (Inr (), self, w)"
| "runs env ((model, params) # calls) self w =
     (case run env model params self w of
        (Inl e, self', w') \<Rightarrow> (Inl e, self', w')
      | (Inr u, self', w') \<Rightarrow> runs env calls self' w')"

text \<open>
  The \<open>with\<close> statement on a \<open>dymola_script\<close>: the body receives the writer and may
  change it and the world; it ends normally or with an exception.  \<open>__exit__\<close> is called
  in both cases, with the exception if there is one, and since it returns \<open>None\<close> the
  exception of the body is raised again after it.
\<close>

definition with_dymola_script ::
  "os_env \<Rightarrow> string \<Rightarrow> string \<Rightarrow> string option \<Rightarrow> nat option \<Rightarrow> string list \<Rightarrow> pydict
     \<Rightarrow> (dymola_script \<Rightarrow> world \<Rightarrow> (error + unit) \<times> dymola_script \<times> world)
     \<Rightarrow> world \<Rightarrow> (error + unit) \<times> world" where
  "with_dymola_script env fname command working_dir results packages options body w0 =
     (case dymola_script_init env fname command working_dir results packages options w0 of
        (Inl e, w1) \<Rightarrow> (Inl e, w1)
      | (Inr self, w1) \<Rightarrow>
          (case body (dymola_script_enter self) w1 of
             (r, self', w2) \<Rightarrow>
               (case dymola_script_exit self'
                       (case r of Inl e \<Rightarrow> Some e | Inr u \<Rightarrow> None) w2 of
                  (Inl e, w3) \<Rightarrow> (Inl e, w3)
                | (Inr u, w3) \<Rightarrow> (r, w3))))"

subsection \<open>Attribute access\<close>

text \<open>The names that \<open>__setattr__\<close> binds on the instance itself.\<close>

definition internal_fields :: "string list" where
  "internal_fields =
     [''_command'', ''_run_log'', ''_mos'', ''_options'', ''_results'', ''n_runs'']"

text \<open>
  \<open>object.__setattr__(self, attr, value)\<close> for one of the six names.  The record gives
  every attribute the type of the object that \<open>__init__\<close> binds to it, so it can hold the
  new value when that is a string for \<open>_command\<close>, an integer for \<open>n_runs\<close> or a
  dictionary for \<open>_options\<close>.  Python also binds a value of any other type (and raises
  nothing); such a writer has no counterpart in the record, and the result is \<open>None\<close>.
\<close>

definition object_setattr :: "dymola_script \<Rightarrow> string \<Rightarrow> pyval \<Rightarrow> dymola_script option" where
  "object_setattr self attr v =
     (case v of
        PStr s \<Rightarrow> if attr = ''_command'' then Some (self\<lparr>u_command := s\<rparr>) else None
      | PInt i \<Rightarrow> if attr = ''n_runs'' then Some (self\<lparr>n_runs := i\<rparr>) else None
      | PDict d \<Rightarrow> if attr = ''_options'' then Some (self\<lparr>u_options := d\<rparr>) else None
      | PNone \<Rightarrow> None)"

text \<open>\<open>dymola_script.__setattr__\<close>, which Python calls for every assignment \<open>self.attr = value\<close>.\<close>

definition dymola_script_setattr ::
  "dymola_script \<Rightarrow> string \<Rightarrow> pyval \<Rightarrow> dymola_script option" where
  "dymola_script_setattr self attr v =
     (if attr \<in> set internal_fields then object_setattr self attr v
      else Some (self\<lparr>u_options := dict_set (u_options self) attr v\<rparr>))"

text \<open>\<open>dymola_script.__getattr__\<close>: \<open>return self._options[attr]\<close>.\<close>

definition dymola_script_getattr :: "dymola_script \<Rightarrow> string \<Rightarrow> error + pyval" where
  "dymola_script_getattr self attr = dict_get (u_options self) attr"

text \<open>The names that the class statement of \<open>dymola_script\<close> binds: its docstring and its methods.\<close>

definition class_attributes :: "string list" where
  "class_attributes =
     [''__doc__'', ''__init__'', ''__getattr__'', ''__setattr__'', ''__enter__'',
      ''__exit__'', ''run'']"

text \<open>What reading an attribute gives: a value, a file, a list object or an attribute of the class.\<close>

datatype pyobj = Value pyval | File nat | ListRef nat | ClassAttribute string

text \<open>
  Reading \<open>self.attr\<close> on a constructed writer.  Python looks the name up on the
  instance, whose dictionary holds the six attributes, and on the class and its base
  \<open>object\<close>; only when the name is found in neither does it call \<open>__getattr__\<close>.  The
  names that \<open>object\<close> provides belong to the interpreter and are the parameter
  \<open>inherited\<close>.
\<close>

definition read_attr :: "string list \<Rightarrow> dymola_script \<Rightarrow> string \<Rightarrow> error + pyobj" where
  "read_attr inherited self attr =
     (if attr = ''_command'' then Inr (Value (PStr (u_command self)))
      else if attr = ''_run_log'' then Inr (File (u_run_log self))
      else if attr = ''_mos'' then Inr (File (u_mos self))
      else if attr = ''_options'' then Inr (Value (PDict (u_options self)))
      else if attr = ''_results'' then Inr (ListRef (u_results self))
      else if attr = ''n_runs'' then Inr (Value (PInt (n_runs self)))
      else if attr \<in> set class_attributes \<or> attr \<in> set inherited
      then Inr (ClassAttribute attr)
      else (case dymola_script_getattr self attr of
              Inl e \<Rightarrow> Inl e
            | Inr v \<Rightarrow> Inr (Value v)))"

section \<open>The stubs \<open>dymosim\<close> and \<open>fmi\<close>\<close>

text \<open>
  \<open>dymosim.__init__\<close>.  It has no normal end: the result is the exception that leaves it
  and the world at that moment.  \<open>os.path.dirname(results_dir)\<close> is reached with the
  argument as the caller gave it, \<open>None\<close> when it is omitted, and \<open>os.path.dirname\<close>
  raises on \<open>None\<close> (a \<open>TypeError\<close>; the \<open>posixpath\<close> of Python 2.7 raises an
  \<open>AttributeError\<close> there).
\<close>

definition dymosim_init ::
  "os_env \<Rightarrow> string option \<Rightarrow> string option \<Rightarrow> nat option \<Rightarrow> pydict \<Rightarrow> world
     \<Rightarrow> error \<times> world" where
  "dymosim_init env working_dir0 results_dir0 results0 options w0 =
     (let working_dir = (case working_dir0 of None \<Rightarrow> getcwd env
                         | Some d \<Rightarrow> expand_path env d)
      in case results_dir0 of
           None \<Rightarrow> (TypeError, w0)
         | Some d \<Rightarrow>
             (let results_dir = dirname env d;
                  exe = (if os_name env = ''nt'' then ''.exe'' else []);
                  results = (case results0 of None \<Rightarrow> dymosim_default_results | Some a \<Rightarrow> a);
                  w1 = w0\<lparr>heap := (heap w0)
                          (results := map (replace_pct_x exe) (heap w0 results))\<rparr>
              in (NotImplementedError, w1)))"

text \<open>\<open>fmi.__init__(self, *args, **kwargs)\<close>.\<close>

definition fmi_init :: "pyval list \<Rightarrow> pydict \<Rightarrow> world \<Rightarrow> error \<times> world" where
  "fmi_init args kwargs w0 = (NotImplementedError, w0)"

section \<open>The experiment generator\<close>

text \<open>
  Modelled from the spec: \<open>gen_experiments\<close> of \<open>modelicares.exps\<close>, which the example
  script calls, is not among the sources.  Its contract in the spec: "given a set of
  model names and a mapping from parameter name to an ordered sequence of candidate
  values (or a single scalar, treated as a one-element sequence), produce a lazy
  sequence of Experiment values covering every combination (Cartesian product) paired
  with every listed model and every combination of scalar/listed run options. No
  de-duplication; order is deterministic (outer product order matches input mapping
  iteration order). No error conditions beyond: fails if a parameter value sequence is
  empty."  An experiment is "a triple of (model name, parameter set, option set)".
\<close>

datatype candidates = Scalar pyval | Sequence "pyval list"

fun candidate_list :: "candidates \<Rightarrow> pyval list" where
  "candidate_list (Scalar v) = [v]"
| "candidate_list (Sequence vs) = vs"

text \<open>
  Modelled from the spec: the combinations of one mapping, the first key in the
  outermost position.
\<close>

fun combinations :: "(string \<times> candidates) list \<Rightarrow> pydict list" where
  "combinations [] = [[]]"
| "combinations ((k, c) # rest) =
     concat (map (\<lambda>v. map (\<lambda>d. (k, v) # d) (combinations rest)) (candidate_list c))"

type_synonym Experiment = "string \<times> pydict \<times> pydict"

text \<open>Modelled from the spec: the generator itself, as the list of what it yields.\<close>

definition gen_experiments ::
  "string list \<Rightarrow> (string \<times> candidates) list \<Rightarrow> (string \<times> candidates) list
     \<Rightarrow> error + Experiment list" where
  "gen_experiments models params args =
     (if list_ex (\<lambda>kc. candidate_list (snd kc) = []) params then Inl EmptySequence
      else Inr (concat (map (\<lambda>m.
                  concat (map (\<lambda>p. map (\<lambda>a. (m, p, a)) (combinations args))
                            (combinations params)))
                  models)))"

section \<open>Notions used in the statements\<close>

text \<open>
  The calls that \<open>__init__\<close> completes when the handle \<open>h\<close> is the next free one, those
  of one \<open>run\<close> call and those of a sequence of \<open>run\<close> calls on open files.
\<close>

definition init_events :: "os_env \<Rightarrow> string \<Rightarrow> string option \<Rightarrow> string list \<Rightarrow> nat \<Rightarrow> event list" where
  "init_events env fname0 working_dir0 packages h =
     [Print ''Starting to write the Dymola script...'', Open h (expand_path env fname0)]
     @ map (Write h)
         (header_lines env
            (case working_dir0 of None \<Rightarrow> getcwd env | Some d \<Rightarrow> expand_path env d)
            packages (dirname env (expand_path env fname0)))
     @ [Open (Suc h) (path_join env (dirname env (expand_path env fname0)) ''runs.tsv''),
        Write (Suc h) run_log_header]"

definition run_events ::
  "os_env \<Rightarrow> string option \<Rightarrow> pydict \<Rightarrow> dymola_script \<Rightarrow> string list \<Rightarrow> event list" where
  "run_events env model params self results =
     map (Write (u_mos self))
       (run_lines env (n_runs self + 1)
          (call_of (u_command self) (u_options self) (problem_of model params)) results)
     @ [Write (u_run_log self)
          (log_line (n_runs self + 1) (u_command self) (u_options self)
             (problem_of model params)),
        Print (''Run '' @ str_int (n_runs self + 1) @ '':  ''
               @ call_of (u_command self) (u_options self) (problem_of model params))]"

fun runs_events ::
  "os_env \<Rightarrow> (string option \<times> pydict) list \<Rightarrow> dymola_script \<Rightarrow> string list \<Rightarrow> event list" where
  "runs_events env [] self results = []"
| "runs_events env ((model, params) # calls) self results =
     run_events env model params self results
     @ runs_events env calls (self\<lparr>n_runs := n_runs self + 1\<rparr>) results"

text \<open>
  Reading a decimal numeral, and the first tab-delimited field of a line: the run number
  of a line of the run log is \<open>int_of_str (first_field line)\<close>.
\<close>

definition digit_val :: "char \<Rightarrow> nat" where
  "digit_val c = length (takeWhile (\<lambda>d. d \<noteq> c) ''0123456789'')"

definition nat_of_str :: "string \<Rightarrow> nat" where
  "nat_of_str s = foldl (\<lambda>a c. 10 * a + digit_val c) 0 s"

definition int_of_str :: "string \<Rightarrow> int" where
  "int_of_str s =
     (case s of
        [] \<Rightarrow> 0
      | c # cs \<Rightarrow> if c = CHR ''-'' then - int (nat_of_str cs) else int (nat_of_str s))"

definition first_field :: "string \<Rightarrow> string" where
  "first_field line = takeWhile (\<lambda>c. c \<noteq> CHR 0x09) line"

text \<open>
  Two environments and the world after the import of the module, for evaluating the
  definitions: a POSIX system and Windows (\<open>os.name\<close> is \<open>nt\<close> and the path separator
  is the backslash), each with simple path functions.
\<close>

definition posix_env :: os_env where
  "posix_env =
     \<lparr>os_name = ''posix'', sep = ''/'', getcwd = ''/home/user'', today = ''2014-06-01'',
      expand_path = (\<lambda>p. ''/home/user/'' @ p),
      dirname = (\<lambda>p. rev (drop 1 (dropWhile (\<lambda>c. c \<noteq> CHR ''/'') (rev p)))),
      basename = (\<lambda>p. rev (takeWhile (\<lambda>c. c \<noteq> CHR ''/'') (rev p))),
      normpath = (\<lambda>p. p),
      path_join = (\<lambda>a b. a @ ''/'' @ b)\<rparr>"

definition windows_env :: os_env where
  "windows_env =
     \<lparr>os_name = ''nt'', sep = [CHR 0x5C], getcwd = ''C:'' @ [CHR 0x5C] @ ''work'',
      today = ''2014-06-01'',
      expand_path = (\<lambda>p. ''C:'' @ [CHR 0x5C] @ ''work'' @ [CHR 0x5C] @ p),
      dirname = (\<lambda>p. rev (drop 1 (dropWhile (\<lambda>c. c \<noteq> CHR 0x5C) (rev p)))),
      basename = (\<lambda>p. rev (takeWhile (\<lambda>c. c \<noteq> CHR 0x5C) (rev p))),
      normpath = (\<lambda>p. p),
      path_join = (\<lambda>a b. a @ [CHR 0x5C] @ b)\<rparr>"

definition fresh_world :: world where
  "fresh_world = \<lparr>events = [], heap = module_heap\<rparr>"

text \<open>
  The writer and the world that \<open>__init__\<close> gives with its default arguments in the world
  after the import, on either system.
\<close>

definition example_writer :: dymola_script where
  "example_writer =
     \<lparr>u_command = ''simulateModel'', u_run_log = 1, u_mos = 0, u_options = [],
      u_results = default_results, n_runs = 0\<rparr>"

definition windows_world :: world where
  "windows_world =
     snd (dymola_script_init windows_env ''run_sims.mos'' ''simulateModel'' None None [] []
            fresh_world)"

definition posix_world :: world where
  "posix_world =
     snd (dymola_script_init posix_env ''run_sims.mos'' ''simulateModel'' None None [] []
            fresh_world)"

text \<open>A dictionary without its entries of value \<open>None\<close>, at every depth of nesting.\<close>

fun drop_none :: "pydict \<Rightarrow> pydict" where
  "drop_none [] = []"
| "drop_none ((k, PNone) # rest) = drop_none rest"
| "drop_none ((k, PDict d) # rest) = (k, PDict (drop_none d)) # drop_none rest"
| "drop_none ((k, v) # rest) = (k, v) # drop_none rest"

text \<open>
  The order of the combinations of a mapping, stated without the recursion of
  \<open>combinations\<close>: with \<open>counts\<close> the numbers of candidates of the keys, combination
  number \<open>j\<close> gives to the key at position \<open>t\<close> the candidate whose position is the digit
  of \<open>j\<close> at \<open>t\<close> in the mixed radix \<open>counts\<close>, the first key being the most significant
  digit and the last key the one that varies fastest.
\<close>

definition counts :: "(string \<times> candidates) list \<Rightarrow> nat list" where
  "counts ps = map (\<lambda>kc. length (candidate_list (snd kc))) ps"

definition nth_choice :: "(string \<times> candidates) list \<Rightarrow> nat \<Rightarrow> pydict" where
  "nth_choice ps j =
     map (\<lambda>t. (fst (ps ! t),
               candidate_list (snd (ps ! t))
                 ! ((j div prod_list (counts (drop (Suc t) ps))) mod (counts ps ! t))))
       [0..<length ps]"

section \<open>Files and handles\<close>

lemma next_handle_append:
  "next_handle (xs @ ys) = max (next_handle xs) (next_handle ys)"
  by (induction xs) auto

lemma next_handle_map_Write:
  "max (Suc h) (next_handle (map (Write h) ss)) = Suc h"
  by (induction ss) auto

lemma closed_less_next_handle: "closed h evs \<Longrightarrow> h < next_handle evs"
  unfolding closed_def by (induction evs) (auto simp: less_max_iff_disj)

lemma fresh_not_closed: "next_handle evs \<le> h \<Longrightarrow> \<not> closed h evs"
  using closed_less_next_handle by fastforce

lemma fresh_written: "next_handle evs \<le> h \<Longrightarrow> written h evs = []"
proof (induction evs)
  case Nil
  then show ?case by (simp add: written_def)
next
  case (Cons e evs)
  then show ?case by (cases e) (auto simp: written_def)
qed

lemma closed_Nil: "\<not> closed h []"
  by (simp add: closed_def)

lemma closed_Cons: "closed h (e # es) = (e = Close h \<or> closed h es)"
  by (auto simp: closed_def)

lemma closed_append: "closed h (xs @ ys) = (closed h xs \<or> closed h ys)"
  by (auto simp: closed_def)

lemma written_Nil: "written h [] = []"
  by (simp add: written_def)

lemma written_Cons: "written h (e # es) = written_by h e @ written h es"
  by (simp add: written_def)

lemma written_append: "written h (xs @ ys) = written h xs @ written h ys"
  by (simp add: written_def)

lemma closed_map_Write [simp]: "\<not> closed h (map (Write h') ss)"
  by (auto simp: closed_def)

lemma written_map_Write:
  "written h (map (Write h') ss) = (if h' = h then ss else [])"
  by (induction ss) (auto simp: written_def)

lemma file_writes_open:
  "\<not> closed h (events w) \<Longrightarrow>
   file_writes h ss w = (Inr (), w\<lparr>events := events w @ map (Write h) ss\<rparr>)"
proof (induction ss arbitrary: w)
  case Nil
  then show ?case by simp
next
  case (Cons s ss)
  have "\<not> closed h (events (w\<lparr>events := events w @ [Write h s]\<rparr>))"
    using Cons.prems by (simp add: closed_def)
  from Cons.IH [OF this] Cons.prems show ?case
    by (simp add: file_write_def)
qed

lemma file_writes_closed:
  "closed h (events w) \<Longrightarrow> file_writes h (s # ss) w = (Inl ValueError, w)"
  by (simp add: file_write_def)

lemma dymola_script_init_eq:
  "dymola_script_init env fname0 command working_dir0 results0 packages options w0 =
     (Inr \<lparr>u_command = command, u_run_log = Suc (next_handle (events w0)),
           u_mos = next_handle (events w0), u_options = options,
           u_results = (case results0 of None \<Rightarrow> default_results | Some a \<Rightarrow> a),
           n_runs = 0\<rparr>,
      w0\<lparr>events := events w0
             @ init_events env fname0 working_dir0 packages (next_handle (events w0)),
         heap := (heap w0)
           ((case results0 of None \<Rightarrow> default_results | Some a \<Rightarrow> a) :=
              map (replace_pct_x (if os_name env = ''nt'' then ''.exe'' else []))
                (heap w0 (case results0 of None \<Rightarrow> default_results | Some a \<Rightarrow> a)))\<rparr>)"
proof -
  have fresh: "\<not> closed (next_handle (events w0)) (events w0)"
    by (simp add: fresh_not_closed)
  have fresh': "\<not> closed (Suc (next_handle (events w0))) (events w0)"
    by (simp add: fresh_not_closed)
  show ?thesis
    using fresh fresh'
    by (simp add: dymola_script_init_def Let_def file_open_def py_print_def
        file_writes_open file_write_def closed_append closed_Cons closed_Nil
        init_events_def next_handle_append next_handle_map_Write)
qed

lemma closed_run_events:
  "closed h (run_events env model params self results) = False"
  by (auto simp: run_events_def closed_def)

lemma run_open:
  assumes "\<not> closed (u_mos self) (events w)" and "\<not> closed (u_run_log self) (events w)"
  shows "run env model params self w =
           (Inr (), self\<lparr>n_runs := n_runs self + 1\<rparr>,
            w\<lparr>events := events w @ run_events env model params self (heap w (u_results self))\<rparr>)"
  using assms
  by (simp add: run_def Let_def file_writes_open file_write_def py_print_def closed_append
      run_events_def)

lemma closed_runs_events:
  "closed h (runs_events env calls self results) = False"
  by (induction calls arbitrary: self) (auto simp: closed_append closed_run_events closed_Nil)

lemma runs_open:
  assumes "\<not> closed (u_mos self) (events w)" and "\<not> closed (u_run_log self) (events w)"
  shows "runs env calls self w =
           (Inr (), self\<lparr>n_runs := n_runs self + int (length calls)\<rparr>,
            w\<lparr>events := events w @ runs_events env calls self (heap w (u_results self))\<rparr>)"
  using assms
proof (induction calls arbitrary: self w)
  case Nil
  then show ?case by simp
next
  case (Cons c calls)
  obtain model params where c: "c = (model, params)" by (cases c)
  let ?self = "self\<lparr>n_runs := n_runs self + 1\<rparr>"
  let ?w = "w\<lparr>events := events w @ run_events env model params self (heap w (u_results self))\<rparr>"
  have "\<not> closed (u_mos ?self) (events ?w)" "\<not> closed (u_run_log ?self) (events ?w)"
    using Cons.prems by (simp_all add: closed_append closed_run_events)
  from Cons.IH [OF this] Cons.prems show ?case
    by (simp add: c run_open add.assoc)
qed

lemma dymola_script_exit_open:
  "\<not> closed (u_mos self) (events w) \<Longrightarrow>
   dymola_script_exit self exc_details w =
     (Inr (), w\<lparr>events := events w @
        [Write (u_mos self) (''exit();'' @ nl), Close (u_mos self), Close (u_run_log self),
         Print ''Finished writing the Dymola script.'']\<rparr>)"
  by (simp add: dymola_script_exit_def file_write_def file_close_def py_print_def)

lemma dymola_script_exit_closed:
  "closed (u_mos self) (events w) \<Longrightarrow>
   dymola_script_exit self exc_details w = (Inl ValueError, w)"
  by (simp add: dymola_script_exit_def file_write_def)

lemma written_run_events_log:
  "u_mos self \<noteq> u_run_log self \<Longrightarrow>
   written (u_run_log self) (run_events env model params self results) =
     [log_line (n_runs self + 1) (u_command self) (u_options self) (problem_of model params)]"
  by (simp add: run_events_def written_append written_map_Write written_Cons written_Nil)

lemma written_run_events_mos:
  "u_mos self \<noteq> u_run_log self \<Longrightarrow>
   written (u_mos self) (run_events env model params self results) =
     run_lines env (n_runs self + 1)
       (call_of (u_command self) (u_options self) (problem_of model params)) results"
  by (simp add: run_events_def written_append written_map_Write written_Cons written_Nil)

lemma written_runs_events_log:
  "u_mos self \<noteq> u_run_log self \<Longrightarrow> n_runs self + 1 = int k \<Longrightarrow>
   written (u_run_log self) (runs_events env calls self results) =
     map (\<lambda>(i, model, params).
            log_line (int i) (u_command self) (u_options self) (problem_of model params))
       (enumerate k calls)"
proof (induction calls arbitrary: self k)
  case Nil
  then show ?case by (simp add: written_def)
next
  case (Cons c calls)
  obtain model params where c: "c = (model, params)" by (cases c)
  let ?self = "self\<lparr>n_runs := n_runs self + 1\<rparr>"
  have "u_mos ?self \<noteq> u_run_log ?self" "n_runs ?self + 1 = int (Suc k)"
    using Cons.prems by simp_all
  from Cons.IH [OF this] Cons.prems show ?case
    by (simp add: c written_append written_run_events_log)
qed

lemma written_runs_events_mos:
  "u_mos self \<noteq> u_run_log self \<Longrightarrow> n_runs self + 1 = int k \<Longrightarrow>
   written (u_mos self) (runs_events env calls self results) =
     concat (map (\<lambda>(i, model, params).
            run_lines env (int i)
              (call_of (u_command self) (u_options self) (problem_of model params)) results)
       (enumerate k calls))"
proof (induction calls arbitrary: self k)
  case Nil
  then show ?case by (simp add: written_def)
next
  case (Cons c calls)
  obtain model params where c: "c = (model, params)" by (cases c)
  let ?self = "self\<lparr>n_runs := n_runs self + 1\<rparr>"
  have "u_mos ?self \<noteq> u_run_log ?self" "n_runs ?self + 1 = int (Suc k)"
    using Cons.prems by simp_all
  from Cons.IH [OF this] Cons.prems show ?case
    by (simp add: c written_append written_run_events_mos)
qed

lemma written_init_events_log:
  "written (Suc h) (init_events env fname0 working_dir0 packages h) = [run_log_header]"
  by (simp add: init_events_def written_append written_map_Write written_Cons written_Nil)

lemma written_init_events_mos:
  "written h (init_events env fname0 working_dir0 packages h) =
     header_lines env
       (case working_dir0 of None \<Rightarrow> getcwd env | Some d \<Rightarrow> expand_path env d)
       packages (dirname env (expand_path env fname0))"
  by (simp add: init_events_def written_append written_map_Write written_Cons written_Nil)

lemma closed_init_events:
  "closed h' (init_events env fname0 working_dir0 packages h) = False"
  by (auto simp: init_events_def closed_def)

section \<open>Decimal numerals\<close>

lemma below_10: "n < 10 \<Longrightarrow> n \<in> set [0, 1, 2, 3, 4, 5, 6, 7, 8, 9 :: nat]"
  by simp arith

lemma digits_below_10:
  "\<forall>n \<in> set [0, 1, 2, 3, 4, 5, 6, 7, 8, 9 :: nat].
     digit_val (''0123456789'' ! n) = n \<and> ''0123456789'' ! n \<in> set ''0123456789''"
  by (simp add: digit_val_def)

lemma digit_val_digit: "n < 10 \<Longrightarrow> digit_val (''0123456789'' ! n) = n"
  using digits_below_10 below_10 by blast

lemma digit_in_digits: "n < 10 \<Longrightarrow> ''0123456789'' ! n \<in> set ''0123456789''"
  using digits_below_10 below_10 by blast

lemma nat_of_str_snoc: "nat_of_str (s @ [c]) = 10 * nat_of_str s + digit_val c"
  by (simp add: nat_of_str_def)

lemma nat_of_str_str_nat: "nat_of_str (str_nat n) = n"
proof (induction n rule: str_nat.induct)
  case (1 n)
  show ?case
  proof (cases "n < 10")
    case True
    then show ?thesis
      by (subst str_nat.simps) (simp add: nat_of_str_def digit_val_digit)
  next
    case False
    with 1 have "nat_of_str (str_nat (n div 10)) = n div 10" by simp
    with False show ?thesis
      by (subst str_nat.simps) (simp add: nat_of_str_snoc digit_val_digit)
  qed
qed

lemma set_str_nat: "set (str_nat n) \<subseteq> set ''0123456789''"
proof (induction n rule: str_nat.induct)
  case (1 n)
  show ?case
  proof (cases "n < 10")
    case True
    with digit_in_digits [of n] show ?thesis
      by (subst str_nat.simps) simp
  next
    case False
    with 1 have "set (str_nat (n div 10)) \<subseteq> set ''0123456789''" by simp
    moreover have "''0123456789'' ! (n mod 10) \<in> set ''0123456789''"
      by (rule digit_in_digits) simp
    ultimately show ?thesis using False
      by (subst str_nat.simps) simp
  qed
qed

lemma str_nat_not_Nil: "str_nat n \<noteq> []"
  by (subst str_nat.simps) simp

lemma int_of_str_str_int: "int_of_str (str_int i) = i"
proof (cases "i < 0")
  case True
  then show ?thesis by (simp add: str_int_def int_of_str_def nat_of_str_str_nat)
next
  case False
  obtain c cs where s: "str_nat (nat i) = c # cs"
    using str_nat_not_Nil [of "nat i"] by (cases "str_nat (nat i)") auto
  have "c \<in> set ''0123456789''"
    using set_str_nat [of "nat i"] s by auto
  then have "c \<noteq> CHR ''-''" by auto
  moreover have "nat_of_str (c # cs) = nat i"
    using nat_of_str_str_nat [of "nat i"] s by simp
  ultimately show ?thesis using False s
    by (simp add: str_int_def int_of_str_def)
qed

lemma tab_not_in_str_int: "CHR 0x09 \<notin> set (str_int i)"
  using set_str_nat [of "nat i"] set_str_nat [of "nat (- i)"]
  by (auto simp: str_int_def)

lemma first_field_log_line:
  "first_field (log_line n command options problem) = str_int n"
proof -
  have "log_line n command options problem = str_int n @ CHR 0x09 # 
          (str_join tab [command, slice_1_m1 (ParamDict_str options),
        (case problem of None \<Rightarrow> [] | Some p \<Rightarrow> if p = [] then [] else slice_1_m1 p)] @ nl)"
    by (simp add: log_line_def tab_def)
  then show ?thesis
    using tab_not_in_str_int [of n] by (simp add: first_field_def takeWhile_append)
qed

lemma run_number_log_line:
  "int_of_str (first_field (log_line n command options problem)) = n"
  by (simp add: first_field_log_line int_of_str_str_int)

section \<open>The writer on open files\<close>

lemma slice_1_m1_Nil: "slice_1_m1 [] = []"
  by (simp add: slice_1_m1_def)

lemma map_fst_enumerate_int:
  "map (\<lambda>(i, model, params). f i) (enumerate k calls) = map f [k..<k + length calls]"
  by (induction calls arbitrary: k) (auto simp: upt_rec)

lemma dymola_script_init_result:
  assumes "dymola_script_init env fname command working_dir results packages options w0
             = (Inr self, w1)"
  shows "self = \<lparr>u_command = command, u_run_log = Suc (next_handle (events w0)),
           u_mos = next_handle (events w0), u_options = options,
           u_results = (case results of None \<Rightarrow> default_results | Some a \<Rightarrow> a),
           n_runs = 0\<rparr>"
    and "events w1 = events w0
           @ init_events env fname working_dir packages (next_handle (events w0))"
    and "heap w1 = (heap w0)
           ((case results of None \<Rightarrow> default_results | Some a \<Rightarrow> a) :=
              map (replace_pct_x (if os_name env = ''nt'' then ''.exe'' else []))
                (heap w0 (case results of None \<Rightarrow> default_results | Some a \<Rightarrow> a)))"
  using assms by (auto simp: dymola_script_init_eq)

lemma dymola_script_init_open:
  assumes "dymola_script_init env fname command working_dir results packages options w0
             = (Inr self, w1)"
  shows "\<not> closed (u_mos self) (events w1)" and "\<not> closed (u_run_log self) (events w1)"
    and "u_mos self \<noteq> u_run_log self"
  using dymola_script_init_result [OF assms]
  by (simp_all add: closed_append closed_init_events fresh_not_closed)

lemma str_int_1: "str_int 1 = ''1''" by (simp add: str_int_def str_nat.simps)
lemma str_int_2: "str_int 2 = ''2''" by (simp add: str_int_def str_nat.simps)

lemma posix_env_simps:
  "os_name posix_env = ''posix''" "sep posix_env = ''/''" "getcwd posix_env = ''/home/user''"
  "today posix_env = ''2014-06-01''" "expand_path posix_env p = ''/home/user/'' @ p"
  "dirname posix_env p = rev (drop 1 (dropWhile (\<lambda>c. c \<noteq> CHR ''/'') (rev p)))"
  "basename posix_env p = rev (takeWhile (\<lambda>c. c \<noteq> CHR ''/'') (rev p))"
  "normpath posix_env p = p" "path_join posix_env a b = a @ ''/'' @ b"
  by (simp_all add: posix_env_def)

lemma windows_env_simps:
  "os_name windows_env = ''nt''" "sep windows_env = [CHR 0x5C]"
  "getcwd windows_env = ''C:'' @ [CHR 0x5C] @ ''work''"
  "today windows_env = ''2014-06-01''"
  "expand_path windows_env p = ''C:'' @ [CHR 0x5C] @ ''work'' @ [CHR 0x5C] @ p"
  "dirname windows_env p = rev (drop 1 (dropWhile (\<lambda>c. c \<noteq> CHR 0x5C) (rev p)))"
  "basename windows_env p = rev (takeWhile (\<lambda>c. c \<noteq> CHR 0x5C) (rev p))"
  "normpath windows_env p = p" "path_join windows_env a b = a @ [CHR 0x5C] @ b"
  by (simp_all add: windows_env_def)

lemma fresh_world_simps:
  "events fresh_world = []" "heap fresh_world = module_heap"
  by (simp_all add: fresh_world_def)

lemma runs_after_init_open:
  assumes "dymola_script_init env fname command working_dir results packages options w0
             = (Inr self, w1)"
    and "runs env calls self w1 = (r, self', w2)"
  shows "r = Inr ()" and "u_mos self' = u_mos self" and "u_run_log self' = u_run_log self"
    and "\<not> closed (u_mos self') (events w2)"
  using assms(2) dymola_script_init_open [OF assms(1)]
  by (auto simp: runs_open closed_append closed_runs_events)

lemma with_dymola_script_open:
  assumes "dymola_script_init env fname command working_dir results packages options w0
             = (Inr self, w1)"
    and "body (dymola_script_enter self) w1 = (r, self', w2)"
    and "\<not> closed (u_mos self') (events w2)"
  shows "with_dymola_script env fname command working_dir results packages options body w0
           = (r, w2\<lparr>events := events w2 @
                [Write (u_mos self') (''exit();'' @ nl), Close (u_mos self'),
                 Close (u_run_log self'), Print ''Finished writing the Dymola script.'']\<rparr>)"
  using assms by (simp add: with_dymola_script_def dymola_script_exit_open)

lemma replace_pct_x_default:
  "map (replace_pct_x exe) (module_heap default_results)
     = [''dsin.txt'', ''dslog.txt'', ''dsres.mat'', ''dymolalg.txt'', ''dymosim'' @ exe]"
  by (simp add: module_heap_def default_results_def dymosim_default_results_def)

lemma windows_init:
  "dymola_script_init windows_env ''run_sims.mos'' ''simulateModel'' None None [] []
     fresh_world = (Inr example_writer, windows_world)"
  by (simp add: windows_world_def dymola_script_init_eq example_writer_def fresh_world_simps)

lemma posix_init:
  "dymola_script_init posix_env ''run_sims.mos'' ''simulateModel'' None None [] []
     fresh_world = (Inr example_writer, posix_world)"
  by (simp add: posix_world_def dymola_script_init_eq example_writer_def fresh_world_simps)

lemma fmi_init_raises: "fst (fmi_init args kwargs w) = NotImplementedError"
  by (simp add: fmi_init_def)

lemma dymosim_init_with_results_dir:
  "fst (dymosim_init env working_dir (Some d) results options w) = NotImplementedError"
  by (simp add: dymosim_init_def Let_def)

lemma map_of_dict_set: "map_of (dict_set d k v) k = Some v"
  by (induction d) auto

lemma dict_get_dict_set: "dict_get (dict_set d k v) k = Inr v"
  by (simp add: dict_get_def map_of_dict_set)

lemma dict_get_missing: "k \<notin> fst ` set d \<Longrightarrow> dict_get d k = Inl KeyError"
  by (simp add: dict_get_def map_of_eq_None_iff [THEN iffD2])

lemma enumerate_Suc_shift:
  "map (\<lambda>(i, x). f i x) (enumerate (Suc n) xs) = map (\<lambda>(i, x). f (Suc i) x) (enumerate n xs)"
  by (induction xs arbitrary: n) auto

lemma written_runs_events_mos_from:
  "u_mos self \<noteq> u_run_log self \<Longrightarrow>
   written (u_mos self) (runs_events env calls self results) =
     concat (map (\<lambda>(i, model, params).
            run_lines env (n_runs self + int i)
              (call_of (u_command self) (u_options self) (problem_of model params)) results)
       (enumerate 1 calls))"
proof (induction calls arbitrary: self)
  case Nil
  then show ?case by (simp add: written_Nil)
next
  case (Cons c calls)
  obtain model params where c: "c = (model, params)" by (cases c)
  let ?self = "self\<lparr>n_runs := n_runs self + 1\<rparr>"
  have "u_mos ?self \<noteq> u_run_log ?self" using Cons.prems by simp
  from Cons.IH [OF this] Cons.prems
  show ?case
    using enumerate_Suc_shift [of "\<lambda>i (model, params). run_lines env (n_runs self + int i)
              (call_of (u_command self) (u_options self) (problem_of model params)) results"
             1 calls]
    by (simp add: c written_append written_run_events_mos case_prod_unfold algebra_simps)
qed

lemma read_attr_not_internal:
  "attr \<notin> set internal_fields \<Longrightarrow>
   read_attr inherited self attr =
     (if attr \<in> set class_attributes \<or> attr \<in> set inherited then Inr (ClassAttribute attr)
      else (case dymola_script_getattr self attr of Inl e \<Rightarrow> Inl e | Inr v \<Rightarrow> Inr (Value v)))"
  by (simp add: read_attr_def internal_fields_def)

lemma flatten_append: "flatten p (d1 @ d2) = flatten p d1 @ flatten p d2"
  by (induction p d1 rule: flatten.induct) simp_all

lemma flatten_drop_none: "flatten p (drop_none d) = flatten p d"
  by (induction p d rule: flatten.induct) simp_all

lemma ParamDict_str_drop_none: "ParamDict_str (drop_none d) = ParamDict_str d"
  by (simp add: ParamDict_str_def flatten_drop_none)

lemma flatten_dict_set_drop_none:
  "(k, PNone) \<notin> set d \<Longrightarrow>
   flatten p (dict_set (drop_none d) k v) = flatten p (dict_set d k v)"
  by (induction d rule: drop_none.induct; cases v) (auto simp: flatten_drop_none)

lemma length_combinations:
  "length (combinations ps) = prod_list (map (\<lambda>kc. length (candidate_list (snd kc))) ps)"
proof (induction ps)
  case Nil
  then show ?case by simp
next
  case (Cons kc ps)
  obtain k c where kc: "kc = (k, c)" by (cases kc)
  have "length (concat (map (\<lambda>v. map ((#) (k, v)) (combinations ps)) vs))
          = length vs * length (combinations ps)" for vs
    by (induction vs) simp_all
  with Cons show ?case by (simp add: kc)
qed

lemma keys_combinations: "d \<in> set (combinations ps) \<Longrightarrow> map fst d = map fst ps"
proof (induction ps arbitrary: d)
  case Nil
  then show ?case by simp
next
  case (Cons kc ps)
  obtain k c where kc: "kc = (k, c)" by (cases kc)
  from Cons.prems obtain v d' where "d = (k, v) # d'" "d' \<in> set (combinations ps)"
    by (auto simp: kc)
  with Cons.IH [of d'] show ?case by (simp add: kc)
qed

lemma set_combinations:
  "set (combinations ps) =
     {d. map fst d = map fst ps
         \<and> (\<forall>i < length ps. snd (d ! i) \<in> set (candidate_list (snd (ps ! i))))}"
proof (induction ps)
  case Nil
  then show ?case by auto
next
  case (Cons kc ps)
  obtain k c where kc: "kc = (k, c)" by (cases kc)
  show ?case
  proof (intro set_eqI iffI)
    fix d
    assume "d \<in> set (combinations (kc # ps))"
    then obtain v d' where d: "d = (k, v) # d'" "v \<in> set (candidate_list c)"
      "d' \<in> set (combinations ps)"
      by (auto simp: kc)
    with Cons.IH have "map fst d' = map fst ps"
      "\<forall>i < length ps. snd (d' ! i) \<in> set (candidate_list (snd (ps ! i)))"
      by auto
    with d show "d \<in> {d. map fst d = map fst (kc # ps)
         \<and> (\<forall>i < length (kc # ps). snd (d ! i) \<in> set (candidate_list (snd ((kc # ps) ! i))))}"
      by (auto simp: kc nth_Cons split: nat.splits)
  next
    fix d
    assume "d \<in> {d. map fst d = map fst (kc # ps)
         \<and> (\<forall>i < length (kc # ps). snd (d ! i) \<in> set (candidate_list (snd ((kc # ps) ! i))))}"
    then have m: "map fst d = map fst (kc # ps)"
      and a: "\<forall>i < length (kc # ps). snd (d ! i) \<in> set (candidate_list (snd ((kc # ps) ! i)))"
      by auto
    from m obtain v d' where d: "d = (k, v) # d'" "map fst d' = map fst ps"
      by (cases d) (auto simp: kc)
    from a have "v \<in> set (candidate_list c)"
      by (auto simp: d kc)
    moreover from a have "\<forall>i < length ps. snd (d' ! i) \<in> set (candidate_list (snd (ps ! i)))"
      by (auto simp: d)
    with d Cons.IH have "d' \<in> set (combinations ps)" by auto
    ultimately show "d \<in> set (combinations (kc # ps))"
      by (auto simp: d kc)
  qed
qed

lemma length_concat_map_const:
  "(\<And>x. x \<in> set xs \<Longrightarrow> length (f x) = n) \<Longrightarrow> length (concat (map f xs)) = length xs * n"
  by (induction xs) simp_all

lemma nth_concat_map_const:
  "(\<And>x. x \<in> set xs \<Longrightarrow> length (f x) = n) \<Longrightarrow> j < length xs * n \<Longrightarrow>
   concat (map f xs) ! j = f (xs ! (j div n)) ! (j mod n)"
proof (induction xs arbitrary: j)
  case Nil
  then show ?case by simp
next
  case (Cons x xs)
  have n: "0 < n" using Cons.prems(2) by (cases n) auto
  show ?case
  proof (cases "j < n")
    case True
    then show ?thesis using Cons.prems(1) by (simp add: nth_append)
  next
    case False
    then have "j - n < length xs * n" using Cons.prems(2) by auto
    from Cons.IH [OF _ this] Cons.prems(1)
    have "concat (map f xs) ! (j - n) = f (xs ! ((j - n) div n)) ! ((j - n) mod n)"
      by simp
    moreover have "(j - n) mod n = j mod n" using False by (simp add: le_mod_geq)
    moreover have "j div n = Suc ((j - n) div n)" using False n by (simp add: le_div_geq)
    ultimately show ?thesis using False Cons.prems(1) by (simp add: nth_append)
  qed
qed

lemma digit_of_mod: "(x mod (w * n)) div w = x div w mod (n :: nat)"
  by (cases "w = 0") (simp_all add: mod_mult2_eq)

lemma digit_of_remainder:
  fixes j :: nat
  assumes "w * n dvd l"
  shows "(j mod l) div w mod n = j div w mod n"
proof -
  have "(j mod l) div w mod n = ((j mod l) mod (w * n)) div w"
    by (simp add: digit_of_mod)
  also have "(j mod l) mod (w * n) = j mod (w * n)"
    using assms by (rule mod_mod_cancel)
  also have "(j mod (w * n)) div w = j div w mod n"
    by (rule digit_of_mod)
  finally show ?thesis .
qed

lemma prod_list_counts: "prod_list (counts ps) = length (combinations ps)"
  by (simp add: counts_def length_combinations)

lemma counts_Cons: "counts ((k, c) # ps) = length (candidate_list c) # counts ps"
  by (simp add: counts_def)

lemma weight_dvd:
  "t < length ps \<Longrightarrow>
   prod_list (counts (drop (Suc t) ps)) * (counts ps ! t) dvd prod_list (counts ps)"
proof -
  assume t: "t < length ps"
  then have "ps = take t ps @ ps ! t # drop (Suc t) ps"
    by (rule id_take_nth_drop)
  then have "counts ps = counts (take t ps) @ (counts ps ! t) # counts (drop (Suc t) ps)"
    using t by (metis (no_types, lifting) counts_def list.simps(9) map_append nth_map)
  then have "prod_list (counts ps)
               = prod_list (counts (take t ps))
                 * ((counts ps ! t) * prod_list (counts (drop (Suc t) ps)))"
    by (metis prod_list.Cons prod_list.append)
  then show ?thesis by (simp add: mult.commute)
qed

lemma nth_combinations:
  "j < prod_list (counts ps) \<Longrightarrow> combinations ps ! j = nth_choice ps j"
proof (induction ps arbitrary: j)
  case Nil
  then show ?case by (simp add: nth_choice_def counts_def)
next
  case (Cons kc ps)
  obtain k c where kc: "kc = (k, c)" by (cases kc)
  let ?vs = "candidate_list c"
  let ?l = "prod_list (counts ps)"
  from Cons.prems have j: "j < length ?vs * ?l" by (simp add: kc counts_Cons)
  then have l: "0 < ?l" by (cases ?l) auto
  have a: "j div ?l < length ?vs" using j l by (simp add: less_mult_imp_div_less)
  have b: "j mod ?l < ?l" using l by simp
  have "combinations (kc # ps) ! j
          = map ((#) (k, ?vs ! (j div ?l))) (combinations ps) ! (j mod ?l)"
    unfolding kc combinations.simps
    using j by (subst nth_concat_map_const [where n = ?l]) (simp_all add: prod_list_counts)
  also have "\<dots> = (k, ?vs ! (j div ?l)) # combinations ps ! (j mod ?l)"
    using b by (simp add: prod_list_counts)
  also have "combinations ps ! (j mod ?l) = nth_choice ps (j mod ?l)"
    using b by (rule Cons.IH)
  also have "(k, ?vs ! (j div ?l)) # nth_choice ps (j mod ?l) = nth_choice (kc # ps) j"
  proof -
    have h: "(k, ?vs ! (j div ?l))
               = (fst ((kc # ps) ! 0),
                  candidate_list (snd ((kc # ps) ! 0))
                    ! ((j div prod_list (counts (drop (Suc 0) (kc # ps))))
                         mod (counts (kc # ps) ! 0)))"
      using a by (simp add: kc counts_Cons)
    have t: "(fst (ps ! t),
              candidate_list (snd (ps ! t))
                ! (((j mod ?l) div prod_list (counts (drop (Suc t) ps))) mod (counts ps ! t)))
           = (fst ((kc # ps) ! Suc t),
              candidate_list (snd ((kc # ps) ! Suc t))
                ! ((j div prod_list (counts (drop (Suc (Suc t)) (kc # ps))))
                     mod (counts (kc # ps) ! Suc t)))"
      if "t < length ps" for t
      using digit_of_remainder [OF weight_dvd [OF that], of j]
      by (simp add: kc counts_Cons)
    have "nth_choice (kc # ps) j
            = (k, ?vs ! (j div ?l))
              # map (\<lambda>t. (fst ((kc # ps) ! Suc t),
                           candidate_list (snd ((kc # ps) ! Suc t))
                             ! ((j div prod_list (counts (drop (Suc (Suc t)) (kc # ps))))
                                  mod (counts (kc # ps) ! Suc t))))
                  [0..<length ps]"
      unfolding nth_choice_def
      using h by (simp add: upt_conv_Cons map_Suc_upt [symmetric] del: upt_Suc)
    also have "\<dots> = (k, ?vs ! (j div ?l)) # nth_choice ps (j mod ?l)"
      unfolding nth_choice_def using t by (simp del: upt_Suc)
    finally show ?thesis by simp
  qed
  finally show ?case .
qed

lemma combinations_enumerated:
  "combinations ps = map (nth_choice ps) [0..<prod_list (counts ps)]"
  by (rule nth_equalityI) (simp_all add: prod_list_counts [symmetric] nth_combinations)

lemma map_by_index: "map f xs = map (\<lambda>i. f (xs ! i)) [0..<length xs]"
  by (rule nth_equalityI) simp_all

lemma product_enumerated:
  fixes models :: "'m list"
  shows "concat (map (\<lambda>m. concat (map (\<lambda>p. map (\<lambda>a. (m, p, a)) (combinations args))
                                (combinations params)))
            models)
   = concat (map (\<lambda>i. concat (map (\<lambda>j. map (\<lambda>k.
                  (models ! i, nth_choice params j, nth_choice args k))
                [0..<prod_list (counts args)])
              [0..<prod_list (counts params)]))
       [0..<length models])"
proof -
  have a: "map (\<lambda>a. (m, p, a)) (combinations args)
             = map (\<lambda>k. (m, p, nth_choice args k)) [0..<prod_list (counts args)]"
    for m :: 'm and p :: pydict
    by (subst combinations_enumerated) (simp add: o_def)
  have p: "map (\<lambda>p. map (\<lambda>a. (m, p, a)) (combinations args)) (combinations params)
             = map (\<lambda>j. map (\<lambda>k. (m, nth_choice params j, nth_choice args k))
                            [0..<prod_list (counts args)])
                 [0..<prod_list (counts params)]"
    for m :: 'm
    unfolding a by (subst combinations_enumerated [of params]) (simp add: o_def)
  have "map (\<lambda>m. concat (map (\<lambda>p. map (\<lambda>a. (m, p, a)) (combinations args))
                                (combinations params))) models
          = map (\<lambda>i. concat (map (\<lambda>p. map (\<lambda>a. (models ! i, p, a)) (combinations args))
                                (combinations params))) [0..<length models]"
    by (rule map_by_index)
  also have "\<dots> = map (\<lambda>i. concat (map (\<lambda>j. map (\<lambda>k.
                  (models ! i, nth_choice params j, nth_choice args k))
                [0..<prod_list (counts args)])
              [0..<prod_list (counts params)]))
       [0..<length models]"
    by (rule map_cong [OF refl]) (rule arg_cong [where f = concat], rule p)
  finally show ?thesis by (rule arg_cong)
qed

section \<open>The run counter\<close>

text \<open>
  Claim C1.  On a writer that \<open>__init__\<close> has constructed, every sequence of \<open>run\<close>
  calls returns normally; afterwards the counter \<open>n_runs\<close> is the number of calls, and the
  run log holds its header line followed by one line per call, each the tab-joined
  fields run number, command, options, model and parameters, ended by a newline.  Read
  back as decimal numerals, the run numbers of the lines are 1, 2, ... up to the number
  of calls: they start at 1 and each is one greater than the one before.
\<close>

theorem run_numbers_count_the_calls:
  assumes "dymola_script_init env fname command working_dir results packages options w0
             = (Inr self, w1)"
  shows "\<exists>self' w2 lines.
           runs env calls self w1 = (Inr (), self', w2)
           \<and> n_runs self' = int (length calls)
           \<and> written (u_run_log self) (events w2) = run_log_header # lines
           \<and> lines = map (\<lambda>(i, model, params).
                        str_join tab
                          [str_int (int i), command, slice_1_m1 (ParamDict_str options),
                           (case problem_of model params of None \<Rightarrow> []
                            | Some p \<Rightarrow> slice_1_m1 p)] @ nl)
                      (enumerate 1 calls)
           \<and> map (\<lambda>line. int_of_str (first_field line)) lines
               = map int [1..<Suc (length calls)]"
proof -
  let ?h = "next_handle (events w0)"
  note self = dymola_script_init_result(1) [OF assms]
  note w1 = dymola_script_init_result(2) [OF assms]
  note op = dymola_script_init_open(1,2) [OF assms]
  let ?lines = "map (\<lambda>(i, model, params).
       log_line (int i) (u_command self) (u_options self) (problem_of model params))
       (enumerate 1 calls)"
  have log: "written (u_run_log self) (events w1) = [run_log_header]"
    by (simp add: self w1 written_append fresh_written written_init_events_log)
  have lines: "written (u_run_log self) (runs_events env calls self (heap w1 (u_results self)))
                 = ?lines"
    by (rule written_runs_events_log) (simp_all add: self)
  have eq: "?lines = map (\<lambda>(i, model, params).
                        str_join tab
                          [str_int (int i), command, slice_1_m1 (ParamDict_str options),
                           (case problem_of model params of None \<Rightarrow> []
                            | Some p \<Rightarrow> slice_1_m1 p)] @ nl)
                      (enumerate 1 calls)"
    by (rule map_cong) (auto simp: log_line_def self slice_1_m1_Nil split: option.splits)
  have num: "map (\<lambda>line. int_of_str (first_field line)) ?lines
               = map int [1..<Suc (length calls)]"
    using map_fst_enumerate_int [of int 1 calls]
    by (simp add: o_def case_prod_unfold run_number_log_line del: upt_Suc)
  have r: "runs env calls self w1 =
             (Inr (), self\<lparr>n_runs := n_runs self + int (length calls)\<rparr>,
              w1\<lparr>events := events w1
                    @ runs_events env calls self (heap w1 (u_results self))\<rparr>)"
    using op by (rule runs_open)
  have n: "n_runs (self\<lparr>n_runs := n_runs self + int (length calls)\<rparr>) = int (length calls)"
    by (simp add: self)
  have w: "written (u_run_log self)
             (events (w1\<lparr>events := events w1
                    @ runs_events env calls self (heap w1 (u_results self))\<rparr>))
           = run_log_header # ?lines"
    using log lines by (simp add: written_append)
  show ?thesis
    by (intro exI conjI, rule r, rule n, rule w, rule eq, rule num)
qed

theorem run_numbers_count_the_calls_witness:
  "\<exists>self w1 self' w2.
     dymola_script_init posix_env ''run_sims.mos'' ''simulateModel'' None None []
         [(''stopTime'', PInt 2500)] fresh_world = (Inr self, w1)
     \<and> runs posix_env [(Some ''ModelX'', [(''L.L'', PInt 21)]),
                        (Some ''ModelX'', [(''L.L'', PInt 15)])] self w1 = (Inr (), self', w2)
     \<and> n_runs self' = 2
     \<and> written (u_run_log self) (events w2) =
         [''Run #'' @ tab @ ''Command'' @ tab @ ''Options'' @ tab @ ''Model & parameters'' @ nl,
          ''1'' @ tab @ ''simulateModel'' @ tab @ ''stopTime=2500'' @ tab @ ''ModelX(L.L=21)'' @ nl,
          ''2'' @ tab @ ''simulateModel'' @ tab @ ''stopTime=2500'' @ tab @ ''ModelX(L.L=15)'' @ nl]"
proof -
  obtain self w1 where init:
    "dymola_script_init posix_env ''run_sims.mos'' ''simulateModel'' None None []
         [(''stopTime'', PInt 2500)] fresh_world = (Inr self, w1)"
    by (simp add: dymola_script_init_eq)
  from run_numbers_count_the_calls [OF init,
      of "[(Some ''ModelX'', [(''L.L'', PInt 21)]), (Some ''ModelX'', [(''L.L'', PInt 15)])]"]
  obtain self' w2 where
    "runs posix_env [(Some ''ModelX'', [(''L.L'', PInt 21)]),
                        (Some ''ModelX'', [(''L.L'', PInt 15)])] self w1 = (Inr (), self', w2)"
    "n_runs self' = 2"
    "written (u_run_log self) (events w2) =
         [''Run #'' @ tab @ ''Command'' @ tab @ ''Options'' @ tab @ ''Model & parameters'' @ nl,
          ''1'' @ tab @ ''simulateModel'' @ tab @ ''stopTime=2500'' @ tab @ ''ModelX(L.L=21)'' @ nl,
          ''2'' @ tab @ ''simulateModel'' @ tab @ ''stopTime=2500'' @ tab @ ''ModelX(L.L=15)'' @ nl]"
    by (auto simp: run_log_header_def problem_of_def ParamDict_str_def item_str_def
        slice_1_m1_def str_int_def str_nat.simps dq_def)
  with init show ?thesis by blast
qed

section \<open>Leaving the scope\<close>

text \<open>
  Claim C2.  When the \<open>with\<close> statement is left, \<open>__exit__\<close> is called whether the body
  ended normally or raised an exception (\<open>r\<close> is either), and what it does is the same in
  both cases: it writes \<open>exit();\<close> and a newline to the script, closes the script file,
  then closes the run log, and prints its message; the outcome of the statement is that
  of the body.  The hypothesis is that the body has not itself closed the script file,
  which no operation of the writer does (\<open>runs_after_init_open\<close>); on a closed script
  file the \<open>write\<close> of \<open>__exit__\<close> raises (\<open>dymola_script_exit_closed\<close>).
\<close>

theorem exit_writes_exit_and_closes_both_files:
  assumes "dymola_script_init env fname command working_dir results packages options w0
             = (Inr self, w1)"
    and "body (dymola_script_enter self) w1 = (r, self', w2)"
    and "\<not> closed (u_mos self') (events w2)"
  shows "with_dymola_script env fname command working_dir results packages options body w0
           = (r, w2\<lparr>events := events w2 @
                [Write (u_mos self') (''exit();'' @ nl), Close (u_mos self'),
                 Close (u_run_log self'), Print ''Finished writing the Dymola script.'']\<rparr>)"
  using assms by (rule with_dymola_script_open)

theorem exit_writes_exit_and_closes_both_files_witness:
  "\<exists>w2. with_dymola_script posix_env ''run_sims.mos'' ''simulateModel'' None None [] []
          (\<lambda>self w. case run posix_env (Some ''ModelX'') [] self w of
                      (r, self', w') \<Rightarrow> (Inl KeyError, self', w'))
          fresh_world
        = (Inl KeyError,
           w2\<lparr>events := events w2 @
                [Write 0 (''exit();'' @ nl), Close 0, Close 1,
                 Print ''Finished writing the Dymola script.'']\<rparr>)"
proof -
  let ?body = "\<lambda>self w. case run posix_env (Some ''ModelX'') [] self w of
                      (r, self', w') \<Rightarrow> (Inl KeyError :: error + unit, self', w')"
  obtain self w1 where init:
    "dymola_script_init posix_env ''run_sims.mos'' ''simulateModel'' None None [] []
       fresh_world = (Inr self, w1)"
    by (simp add: dymola_script_init_eq)
  note self = dymola_script_init_result(1) [OF init]
  note op = dymola_script_init_open [OF init]
  obtain self' w2 where body: "?body (dymola_script_enter self) w1 = (Inl KeyError, self', w2)"
    and self': "self' = self\<lparr>n_runs := n_runs self + 1\<rparr>"
    and w2: "events w2 = events w1 @ run_events posix_env (Some ''ModelX'') [] self
                           (heap w1 (u_results self))"
    using op by (auto simp: dymola_script_enter_def run_open)
  have "\<not> closed (u_mos self') (events w2)"
    using op by (simp add: self' w2 closed_append closed_run_events)
  from exit_writes_exit_and_closes_both_files [where body = ?body, OF init body this]
  show ?thesis
    by (auto simp: self self' fresh_world_def)
qed

section \<open>A scope without runs\<close>

text \<open>
  Claim C4.  A scope that is entered and left with no \<open>run\<close> call ends normally.  The
  script file then holds the header --- the comment with the date, the two import
  statements, the setting of the translation log, the change to the working directory,
  the lines of the preloaded packages (none by default) and the assignment of the
  destination --- followed by \<open>exit();\<close>; the run log holds its header line and
  nothing else; both files are closed.
\<close>

theorem zero_runs_script_and_log:
  \<open>let mos = next_handle (events w0);
       run_log = Suc (next_handle (events w0));
       working_dir' = (case working_dir of None \<Rightarrow> getcwd env | Some d \<Rightarrow> expand_path env d);
       results_dir = dirname env (expand_path env fname)
   in \<exists>w'. with_dymola_script env fname command working_dir results packages options
              (\<lambda>self w. (Inr (), self, w)) w0 = (Inr (), w')
        \<and> Open mos (expand_path env fname) \<in> set (events w')
        \<and> Open run_log (path_join env results_dir ''runs.tsv'') \<in> set (events w')
        \<and> written mos (events w') =
            [''// Dymola script written by ModelicaRes '' @ today env @ nl,
             ''import Modelica.Utilities.Files.copy;'' @ nl,
             ''import Modelica.Utilities.Files.createDirectory;'' @ nl,
             ''Advanced.TranslationInCommandLog = true "Also include translation log in command log";''
               @ nl,
             ''cd("'' @ working_dir' @ ''");'' @ nl]
            @ concat (map (package_lines env working_dir') packages)
            @ [''destination = "'' @ normpath env results_dir @ sep env @ ''";'' @ nl @ nl,
               ''exit();'' @ nl]
        \<and> written run_log (events w') =
            [''Run #'' @ tab @ ''Command'' @ tab @ ''Options'' @ tab @ ''Model & parameters''
               @ nl]
        \<and> closed mos (events w') \<and> closed run_log (events w')\<close>
proof -
  let ?h = "next_handle (events w0)"
  obtain self w1 where init:
    "dymola_script_init env fname command working_dir results packages options w0
       = (Inr self, w1)"
    by (simp add: dymola_script_init_eq)
  note self = dymola_script_init_result(1) [OF init]
  note w1 = dymola_script_init_result(2) [OF init]
  note op = dymola_script_init_open [OF init]
  let ?w' = "w1\<lparr>events := events w1 @
                [Write (u_mos self) (''exit();'' @ nl), Close (u_mos self),
                 Close (u_run_log self), Print ''Finished writing the Dymola script.'']\<rparr>"
  have "(\<lambda>self w. (Inr (), self, w)) (dymola_script_enter self) w1 = (Inr (), self, w1)"
    by (simp add: dymola_script_enter_def)
  from with_dymola_script_open
         [where body = "\<lambda>self w. (Inr (), self, w)", OF init this op(1)]
  have res: "with_dymola_script env fname command working_dir results packages options
               (\<lambda>self w. (Inr (), self, w)) w0 = (Inr (), ?w')" .
  have mos: "u_mos self = ?h" and log: "u_run_log self = Suc ?h"
    by (simp_all add: self)
  have o1: "Open ?h (expand_path env fname) \<in> set (events ?w')"
    by (simp add: w1 init_events_def)
  have o2: "Open (Suc ?h) (path_join env (dirname env (expand_path env fname)) ''runs.tsv'')
              \<in> set (events ?w')"
    by (simp add: w1 init_events_def)
  have wm: "written ?h (events ?w') =
              header_lines env
                (case working_dir of None \<Rightarrow> getcwd env | Some d \<Rightarrow> expand_path env d)
                packages (dirname env (expand_path env fname))
              @ [''exit();'' @ nl]"
    by (simp add: w1 mos log written_append fresh_written written_init_events_mos
        written_Cons written_Nil)
  have wl: "written (Suc ?h) (events ?w') = [run_log_header]"
    by (simp add: w1 mos log written_append fresh_written written_init_events_log
        written_Cons written_Nil)
  have cl: "closed ?h (events ?w')" "closed (Suc ?h) (events ?w')"
    by (simp_all add: mos log closed_def)
  show ?thesis
    unfolding Let_def
    using res o1 o2 wm wl cl
    by (intro exI [of _ ?w']) (simp add: header_lines_def run_log_header_def)
qed

theorem zero_runs_script_and_log_witness:
  \<open>\<exists>w'. with_dymola_script posix_env ''run_sims.mos'' ''simulateModel'' None None [] []
            (\<lambda>self w. (Inr (), self, w)) fresh_world = (Inr (), w')
     \<and> written 0 (events w') =
         [''// Dymola script written by ModelicaRes 2014-06-01'' @ nl,
          ''import Modelica.Utilities.Files.copy;'' @ nl,
          ''import Modelica.Utilities.Files.createDirectory;'' @ nl,
          ''Advanced.TranslationInCommandLog = true "Also include translation log in command log";''
            @ nl,
          ''cd("/home/user");'' @ nl,
          ''destination = "/home/user/";'' @ nl @ nl,
          ''exit();'' @ nl]
     \<and> written 1 (events w') =
         [''Run #'' @ tab @ ''Command'' @ tab @ ''Options'' @ tab @ ''Model & parameters''
            @ nl]\<close>
  using zero_runs_script_and_log
          [where ?w0.0 = fresh_world and env = posix_env and fname = "''run_sims.mos''"
             and command = "''simulateModel''" and working_dir = None and results = None
             and packages = "[]" and options = "[]"]
  by (simp add: Let_def fresh_world_simps posix_env_simps) blast

section \<open>The block of one run\<close>

text \<open>
  Claim C3, amended.  On a constructed writer every sequence of \<open>run\<close> calls returns
  normally and leaves the list of result files as it is.  The call with run number
  \<open>i\<close> appends to the script, in order: the comment \<open>// Run i\<close>, the invocation
  \<open>ok = call;\<close>, the conditional block that saves the log, sets \<open>dest\<close> to
  \<open>destination\<close> plus the run number followed by the path separator of the platform
  (\<open>os.path.sep\<close>), creates that directory and copies into it each file of the list
  of result files, and the call \<open>clearlog();\<close>; and it appends one line to the run
  log.  With the default argument on a freshly imported module the list has the five
  entries of the source, \<open>%x\<close> replaced.  Two successive calls give the blocks 1 and
  2 with the same files and two lines in the log.
\<close>

theorem run_blocks_in_the_script:
  assumes "dymola_script_init env fname command working_dir results packages options w0
             = (Inr self, w1)"
  shows \<open>\<exists>self' w2.
           runs env calls self w1 = (Inr (), self', w2)
           \<and> heap w2 = heap w1
           \<and> written (u_mos self) (events w2) =
               written (u_mos self) (events w1)
               @ concat (map (\<lambda>(i, model, params).
                   [''// Run '' @ str_int (int i) @ nl,
                    ''ok = '' @ call_of command options (problem_of model params) @ '';'' @ nl,
                    ''if ok then'' @ nl,
                    ''    savelog();'' @ nl,
                    ''    dest = destination + "'' @ str_int (int i) @ sep env @ ''";'' @ nl,
                    ''    createDirectory(dest);'' @ nl]
                   @ map (\<lambda>result.
                        ''    copy("'' @ result @ ''", dest + "'' @ result @ ''", true);'' @ nl)
                       (heap w1 (u_results self))
                   @ [''end if;'' @ nl,
                      ''clearlog();'' @ nl @ nl])
                 (enumerate 1 calls))
           \<and> written (u_run_log self) (events w2) =
               written (u_run_log self) (events w1)
               @ map (\<lambda>(i, model, params).
                        log_line (int i) command options (problem_of model params))
                   (enumerate 1 calls)
           \<and> (results = None \<and> heap w0 default_results = module_heap default_results
                \<longrightarrow> heap w1 (u_results self) =
                      [''dsin.txt'', ''dslog.txt'', ''dsres.mat'', ''dymolalg.txt'',
                       ''dymosim'' @ (if os_name env = ''nt'' then ''.exe'' else [])])\<close>
proof -
  note self = dymola_script_init_result(1) [OF assms]
  note hp = dymola_script_init_result(3) [OF assms]
  note op = dymola_script_init_open [OF assms]
  let ?w2 = "w1\<lparr>events := events w1
                    @ runs_events env calls self (heap w1 (u_results self))\<rparr>"
  have r: "runs env calls self w1 =
             (Inr (), self\<lparr>n_runs := n_runs self + int (length calls)\<rparr>, ?w2)"
    using op(1,2) by (rule runs_open)
  have h: "heap ?w2 = heap w1" by simp
  have n: "n_runs self + 1 = int 1" by (simp add: self)
  have m: "written (u_mos self) (events ?w2) =
             written (u_mos self) (events w1)
             @ concat (map (\<lambda>(i, model, params).
                 run_lines env (int i)
                   (call_of (u_command self) (u_options self) (problem_of model params))
                   (heap w1 (u_results self)))
               (enumerate 1 calls))"
    using written_runs_events_mos [OF op(3) n] by (simp add: written_append)
  have l: "written (u_run_log self) (events ?w2) =
             written (u_run_log self) (events w1)
             @ map (\<lambda>(i, model, params).
                      log_line (int i) (u_command self) (u_options self)
                        (problem_of model params))
                 (enumerate 1 calls)"
    using written_runs_events_log [OF op(3) n] by (simp add: written_append)
  have c: "u_command self = command" "u_options self = options" by (simp_all add: self)
  have d: "results = None \<and> heap w0 default_results = module_heap default_results
             \<longrightarrow> heap w1 (u_results self) =
                   [''dsin.txt'', ''dslog.txt'', ''dsres.mat'', ''dymolalg.txt'',
                    ''dymosim'' @ (if os_name env = ''nt'' then ''.exe'' else [])]"
    using replace_pct_x_default [of "if os_name env = ''nt'' then ''.exe'' else []"]
    by (auto simp: self hp)
  show ?thesis
    using r h m l d unfolding c run_lines_def
    by (intro exI [of _ "self\<lparr>n_runs := n_runs self + int (length calls)\<rparr>"] exI [of _ ?w2])
       (simp del: enumerate_simps)
qed

theorem run_blocks_in_the_script_witness:
  \<open>\<exists>self w1 self' w2.
     dymola_script_init posix_env ''run_sims.mos'' ''simulateModel'' None None [] []
       fresh_world = (Inr self, w1)
     \<and> runs posix_env [(Some ''ModelX'', [(''L.L'', PInt 21)]),
                        (Some ''ModelX'', [(''L.L'', PInt 15)])] self w1 = (Inr (), self', w2)
     \<and> written (u_mos self) (events w2) =
         written (u_mos self) (events w1)
         @ [''// Run 1'' @ nl,
            ''ok = simulateModel(problem="ModelX(L.L=21)");'' @ nl,
            ''if ok then'' @ nl,
            ''    savelog();'' @ nl,
            ''    dest = destination + "1/";'' @ nl,
            ''    createDirectory(dest);'' @ nl,
            ''    copy("dsin.txt", dest + "dsin.txt", true);'' @ nl,
            ''    copy("dslog.txt", dest + "dslog.txt", true);'' @ nl,
            ''    copy("dsres.mat", dest + "dsres.mat", true);'' @ nl,
            ''    copy("dymolalg.txt", dest + "dymolalg.txt", true);'' @ nl,
            ''    copy("dymosim", dest + "dymosim", true);'' @ nl,
            ''end if;'' @ nl,
            ''clearlog();'' @ nl @ nl,
            ''// Run 2'' @ nl,
            ''ok = simulateModel(problem="ModelX(L.L=15)");'' @ nl,
            ''if ok then'' @ nl,
            ''    savelog();'' @ nl,
            ''    dest = destination + "2/";'' @ nl,
            ''    createDirectory(dest);'' @ nl,
            ''    copy("dsin.txt", dest + "dsin.txt", true);'' @ nl,
            ''    copy("dslog.txt", dest + "dslog.txt", true);'' @ nl,
            ''    copy("dsres.mat", dest + "dsres.mat", true);'' @ nl,
            ''    copy("dymolalg.txt", dest + "dymolalg.txt", true);'' @ nl,
            ''    copy("dymosim", dest + "dymosim", true);'' @ nl,
            ''end if;'' @ nl,
            ''clearlog();'' @ nl @ nl]
     \<and> written (u_run_log self) (events w2) =
         written (u_run_log self) (events w1)
         @ [''1'' @ tab @ ''simulateModel'' @ tab @ tab @ ''ModelX(L.L=21)'' @ nl,
            ''2'' @ tab @ ''simulateModel'' @ tab @ tab @ ''ModelX(L.L=15)'' @ nl]\<close>
proof -
  from run_blocks_in_the_script [OF posix_init,
      of "[(Some ''ModelX'', [(''L.L'', PInt 21)]), (Some ''ModelX'', [(''L.L'', PInt 15)])]"]
  obtain self' w2 where
    "runs posix_env [(Some ''ModelX'', [(''L.L'', PInt 21)]),
                        (Some ''ModelX'', [(''L.L'', PInt 15)])] example_writer posix_world
       = (Inr (), self', w2)"
    \<open>written (u_mos example_writer) (events w2) =
         written (u_mos example_writer) (events posix_world)
         @ [''// Run 1'' @ nl,
            ''ok = simulateModel(problem="ModelX(L.L=21)");'' @ nl,
            ''if ok then'' @ nl,
            ''    savelog();'' @ nl,
            ''    dest = destination + "1/";'' @ nl,
            ''    createDirectory(dest);'' @ nl,
            ''    copy("dsin.txt", dest + "dsin.txt", true);'' @ nl,
            ''    copy("dslog.txt", dest + "dslog.txt", true);'' @ nl,
            ''    copy("dsres.mat", dest + "dsres.mat", true);'' @ nl,
            ''    copy("dymolalg.txt", dest + "dymolalg.txt", true);'' @ nl,
            ''    copy("dymosim", dest + "dymosim", true);'' @ nl,
            ''end if;'' @ nl,
            ''clearlog();'' @ nl @ nl,
            ''// Run 2'' @ nl,
            ''ok = simulateModel(problem="ModelX(L.L=15)");'' @ nl,
            ''if ok then'' @ nl,
            ''    savelog();'' @ nl,
            ''    dest = destination + "2/";'' @ nl,
            ''    createDirectory(dest);'' @ nl,
            ''    copy("dsin.txt", dest + "dsin.txt", true);'' @ nl,
            ''    copy("dslog.txt", dest + "dslog.txt", true);'' @ nl,
            ''    copy("dsres.mat", dest + "dsres.mat", true);'' @ nl,
            ''    copy("dymolalg.txt", dest + "dymolalg.txt", true);'' @ nl,
            ''    copy("dymosim", dest + "dymosim", true);'' @ nl,
            ''end if;'' @ nl,
            ''clearlog();'' @ nl @ nl]\<close>
    "written (u_run_log example_writer) (events w2) =
         written (u_run_log example_writer) (events posix_world)
         @ [''1'' @ tab @ ''simulateModel'' @ tab @ tab @ ''ModelX(L.L=21)'' @ nl,
            ''2'' @ tab @ ''simulateModel'' @ tab @ tab @ ''ModelX(L.L=15)'' @ nl]"
    by (auto simp: fresh_world_simps posix_env_simps problem_of_def call_of_def log_line_def
        ParamDict_str_def item_str_def slice_1_m1_def str_int_def str_nat.simps dq_def)
  with posix_init show ?thesis by blast
qed

text \<open>
  Claim C3 as stated names the directory \<open>destination + "n/"\<close>.  The source appends
  \<open>os.path.sep\<close> to the run number, so on Windows, which the source provides for by its
  test of \<open>os.name\<close>, the script of the first run has no line with \<open>"1/"\<close>: the
  directory there is the run number followed by a backslash.
\<close>

theorem run_directory_on_windows_counterexample:
  \<open>dymola_script_init windows_env ''run_sims.mos'' ''simulateModel'' None None [] []
     fresh_world = (Inr example_writer, windows_world)
   \<and> ''    dest = destination + "1/";'' @ nl
       \<notin> set (written (u_mos example_writer)
                (events (snd (snd (run windows_env (Some ''ModelX'') [(''L.L'', PInt 21)]
                                    example_writer windows_world)))))
   \<and> ''    dest = destination + "1'' @ [CHR 0x5C] @ ''";'' @ nl
       \<in> set (written (u_mos example_writer)
                (events (snd (snd (run windows_env (Some ''ModelX'') [(''L.L'', PInt 21)]
                                    example_writer windows_world)))))\<close>
proof -
  note op = dymola_script_init_open [OF windows_init]
  note w1 = dymola_script_init_result(2) [OF windows_init]
  have ex: "u_mos example_writer = 0" "u_run_log example_writer = 1"
    "n_runs example_writer = 0" "u_command example_writer = ''simulateModel''"
    "u_options example_writer = []"
    by (simp_all add: example_writer_def)
  have "written (u_mos example_writer)
          (events (snd (snd (run windows_env (Some ''ModelX'') [(''L.L'', PInt 21)]
                                    example_writer windows_world))))
        = header_lines windows_env (getcwd windows_env) []
            (dirname windows_env (expand_path windows_env ''run_sims.mos''))
          @ run_lines windows_env 1
              (call_of ''simulateModel'' [] (problem_of (Some ''ModelX'') [(''L.L'', PInt 21)]))
              (heap windows_world (u_results example_writer))"
    using op written_run_events_mos [OF op(3)] written_init_events_mos [of 0]
    by (simp add: run_open w1 written_append fresh_world_simps written_Nil ex)
  moreover have "heap windows_world (u_results example_writer)
                   = [''dsin.txt'', ''dslog.txt'', ''dsres.mat'', ''dymolalg.txt'',
                      ''dymosim.exe'']"
    using replace_pct_x_default [of "''.exe''"]
    by (simp add: dymola_script_init_result(3) [OF windows_init] example_writer_def
        fresh_world_simps windows_env_simps)
  ultimately show ?thesis
    using windows_init
    by (simp add: header_lines_def run_lines_def windows_env_simps str_int_def str_nat.simps
        nl_def call_of_def problem_of_def ParamDict_str_def item_str_def dq_def)
qed

section \<open>The list of result files is updated in place\<close>

text \<open>
  Claim C9.  \<open>__init__\<close> keeps in \<open>_results\<close> the very list object that it received --- the
  caller's, or the one default object when the argument is omitted --- and replaces
  \<open>%x\<close> by the suffix of the platform in every entry of that object; no other list
  changes.  So a second construction with the default works on the list that the first
  has already rewritten, both writers refer to it, and the first sees what the second
  does to it.
\<close>

theorem init_rewrites_the_results_list_in_place:
  assumes "dymola_script_init env fname command working_dir results packages options w0
             = (Inr self, w1)"
  shows "u_results self = (case results of None \<Rightarrow> default_results | Some a \<Rightarrow> a)
         \<and> heap w1 (u_results self) =
             map (replace_pct_x (if os_name env = ''nt'' then ''.exe'' else []))
               (heap w0 (u_results self))
         \<and> (\<forall>b. b \<noteq> u_results self \<longrightarrow> heap w1 b = heap w0 b)
         \<and> (\<forall>env2 fname2 command2 working_dir2 packages2 options2 self2 w2.
               results = None
               \<and> dymola_script_init env2 fname2 command2 working_dir2 None packages2 options2
                    w1 = (Inr self2, w2)
               \<longrightarrow> u_results self2 = u_results self
                   \<and> heap w2 (u_results self) =
                       map (replace_pct_x (if os_name env2 = ''nt'' then ''.exe'' else []))
                         (heap w1 (u_results self)))"
proof -
  note self = dymola_script_init_result(1) [OF assms]
  note hp = dymola_script_init_result(3) [OF assms]
  have a: "u_results self = (case results of None \<Rightarrow> default_results | Some a \<Rightarrow> a)"
    by (simp add: self)
  have b: "heap w1 (u_results self) =
             map (replace_pct_x (if os_name env = ''nt'' then ''.exe'' else []))
               (heap w0 (u_results self))"
    by (simp add: a hp)
  have c: "\<forall>b. b \<noteq> u_results self \<longrightarrow> heap w1 b = heap w0 b"
    by (simp add: a hp)
  have d: "u_results self2 = u_results self
           \<and> heap w2 (u_results self) =
               map (replace_pct_x (if os_name env2 = ''nt'' then ''.exe'' else []))
                 (heap w1 (u_results self))"
    if "results = None"
      and "dymola_script_init env2 fname2 command2 working_dir2 None packages2 options2 w1
             = (Inr self2, w2)"
    for env2 fname2 command2 working_dir2 packages2 options2 self2 w2
    using dymola_script_init_result(1,3) [OF that(2)] that(1) by (simp add: a)
  from a b c d show ?thesis by blast
qed

theorem init_rewrites_the_results_list_in_place_witness:
  "dymola_script_init windows_env ''run_sims.mos'' ''simulateModel'' None None [] []
     fresh_world = (Inr example_writer, windows_world)
   \<and> u_results example_writer = default_results
   \<and> heap fresh_world default_results =
       [''dsin.txt'', ''dslog.txt'', ''dsres.mat'', ''dymolalg.txt'', ''dymosim%x'']
   \<and> heap windows_world default_results =
       [''dsin.txt'', ''dslog.txt'', ''dsres.mat'', ''dymolalg.txt'', ''dymosim.exe'']"
proof -
  from init_rewrites_the_results_list_in_place [OF windows_init]
  have h: "heap windows_world (u_results example_writer) =
             map (replace_pct_x (if os_name windows_env = ''nt'' then ''.exe'' else []))
               (heap fresh_world (u_results example_writer))"
    by blast
  have u: "u_results example_writer = default_results"
    by (simp add: example_writer_def)
  have m: "heap fresh_world default_results =
             [''dsin.txt'', ''dslog.txt'', ''dsres.mat'', ''dymolalg.txt'', ''dymosim%x'']"
    by (simp add: fresh_world_simps module_heap_def default_results_def
        dymosim_default_results_def)
  from h u m have "heap windows_world default_results =
             [''dsin.txt'', ''dslog.txt'', ''dsres.mat'', ''dymolalg.txt'', ''dymosim.exe'']"
    by (simp add: windows_env_simps)
  with windows_init u m show ?thesis by simp
qed

section \<open>The stubs\<close>

text \<open>
  Claim C8.  \<open>fmi.__init__\<close> raises \<open>NotImplementedError\<close> whatever it is given
  (\<open>fmi_init_raises\<close>), and so does \<open>dymosim.__init__\<close> when \<open>results_dir\<close> is a string
  (\<open>dymosim_init_with_results_dir\<close>).  With \<open>results_dir\<close> omitted, as in \<open>dymosim()\<close> and
  in the example of its own docstring, \<open>dymosim.__init__\<close> hands the default \<open>None\<close> to
  \<open>os.path.dirname\<close>: the exception that leaves the constructor is the one raised there,
  before the list of results is touched, and it is not \<open>NotImplementedError\<close>.
\<close>

theorem dymosim_without_results_dir:
  "dymosim_init env working_dir None results options w = (TypeError, w)
   \<and> fst (dymosim_init env working_dir None results options w) \<noteq> NotImplementedError"
  by (simp add: dymosim_init_def)

section \<open>Attributes and options\<close>

text \<open>
  Claim C10, amended.  Reading an attribute that normal lookup does not find --- it is
  none of the six attributes of the instance and no attribute of the class or of
  \<open>object\<close> --- and that is no key of the options raises \<open>KeyError\<close>: \<open>__getattr__\<close>
  indexes the dictionary of options.
\<close>

theorem unknown_attribute_raises_KeyError:
  assumes "attr \<notin> set internal_fields"
    and "attr \<notin> set class_attributes" and "attr \<notin> set inherited"
    and "attr \<notin> fst ` set (u_options self)"
  shows "read_attr inherited self attr = Inl KeyError"
  using assms
  by (simp add: read_attr_not_internal dymola_script_getattr_def dict_get_missing)

theorem unknown_attribute_raises_KeyError_witness:
  "''stopTime'' \<notin> set internal_fields \<and> ''stopTime'' \<notin> set class_attributes
   \<and> ''stopTime'' \<notin> set [''__class__'', ''__dict__'']
   \<and> ''stopTime'' \<notin> fst ` set (u_options example_writer)
   \<and> read_attr [''__class__'', ''__dict__''] example_writer ''stopTime'' = Inl KeyError"
proof -
  have h: "''stopTime'' \<notin> set internal_fields" "''stopTime'' \<notin> set class_attributes"
    "''stopTime'' \<notin> set [''__class__'', ''__dict__'']"
    "''stopTime'' \<notin> fst ` set (u_options example_writer)"
    by (simp_all add: internal_fields_def class_attributes_def example_writer_def)
  from unknown_attribute_raises_KeyError [OF h] h show ?thesis by simp
qed

text \<open>
  Claim C10 as stated covers every name that is neither one of the six attributes nor a
  key of the options.  The method \<open>run\<close> is such a name on a writer without options, and
  reading it gives the method of the class: \<open>__getattr__\<close> is not called and nothing is
  raised.
\<close>

theorem reading_run_counterexample:
  "''run'' \<notin> set internal_fields \<and> ''run'' \<notin> fst ` set (u_options example_writer)
   \<and> read_attr [] example_writer ''run'' = Inr (ClassAttribute ''run'')
   \<and> read_attr [] example_writer ''run'' \<noteq> Inl KeyError"
  by (simp add: read_attr_def internal_fields_def class_attributes_def example_writer_def)

text \<open>
  Claim C5, amended.  Assigning an attribute that is not one of the six internal fields
  stores the value in the options, under that name.  Every \<open>run\<close> call that follows, in
  any number, returns normally on open files, keeps the options, and writes its command
  serialized from the updated options.  Reading the attribute gives the stored value
  when the name is no attribute of the class or of \<open>object\<close>.
\<close>

theorem assignment_updates_the_options:
  assumes "attr \<notin> set internal_fields"
  shows "\<exists>self'.
           dymola_script_setattr self attr v = Some self'
           \<and> u_options self' = dict_set (u_options self) attr v
           \<and> dict_get (u_options self') attr = Inr v
           \<and> (\<forall>env calls w.
                 \<not> closed (u_mos self) (events w) \<and> \<not> closed (u_run_log self) (events w)
                 \<and> u_mos self \<noteq> u_run_log self
                 \<longrightarrow> (\<exists>self2 w2.
                        runs env calls self' w = (Inr (), self2, w2)
                        \<and> u_options self2 = dict_set (u_options self) attr v
                        \<and> written (u_mos self) (events w2) =
                            written (u_mos self) (events w)
                            @ concat (map (\<lambda>(i, model, params).
                                run_lines env (n_runs self + int i)
                                  (call_of (u_command self) (dict_set (u_options self) attr v)
                                     (problem_of model params))
                                  (heap w (u_results self)))
                              (enumerate 1 calls))))
           \<and> (attr \<notin> set class_attributes \<and> attr \<notin> set inherited
                \<longrightarrow> read_attr inherited self' attr = Inr (Value v))"
proof -
  let ?self' = "self\<lparr>u_options := dict_set (u_options self) attr v\<rparr>"
  have s: "dymola_script_setattr self attr v = Some ?self'"
    using assms by (simp add: dymola_script_setattr_def)
  have g: "dict_get (u_options ?self') attr = Inr v"
    by (simp add: dict_get_dict_set)
  have r: "\<exists>self2 w2.
             runs env calls ?self' w = (Inr (), self2, w2)
             \<and> u_options self2 = dict_set (u_options self) attr v
             \<and> written (u_mos self) (events w2) =
                 written (u_mos self) (events w)
                 @ concat (map (\<lambda>(i, model, params).
                     run_lines env (n_runs self + int i)
                       (call_of (u_command self) (dict_set (u_options self) attr v)
                          (problem_of model params))
                       (heap w (u_results self)))
                   (enumerate 1 calls))"
    if "\<not> closed (u_mos self) (events w)" "\<not> closed (u_run_log self) (events w)"
      "u_mos self \<noteq> u_run_log self" for env calls w
  proof -
    have op: "\<not> closed (u_mos ?self') (events w)" "\<not> closed (u_run_log ?self') (events w)"
      and ne: "u_mos ?self' \<noteq> u_run_log ?self'"
      using that by simp_all
    show ?thesis
      using runs_open [OF op, of env calls] written_runs_events_mos_from [OF ne]
      by (simp add: written_append del: enumerate_simps)
  qed
  have a: "read_attr inherited ?self' attr = Inr (Value v)"
    if "attr \<notin> set class_attributes" "attr \<notin> set inherited"
    using that assms g by (simp add: read_attr_not_internal dymola_script_getattr_def)
  from s g r a show ?thesis
    by (intro exI [of _ ?self']) (simp del: enumerate_simps)
qed

theorem assignment_updates_the_options_witness:
  \<open>''stopTime'' \<notin> set internal_fields
   \<and> dymola_script_setattr example_writer ''stopTime'' (PInt 250)
       = Some (example_writer\<lparr>u_options := [(''stopTime'', PInt 250)]\<rparr>)
   \<and> read_attr [] (example_writer\<lparr>u_options := [(''stopTime'', PInt 250)]\<rparr>) ''stopTime''
       = Inr (Value (PInt 250))
   \<and> (\<exists>self2 w2.
         runs posix_env [(Some ''ModelX'', [])]
           (example_writer\<lparr>u_options := [(''stopTime'', PInt 250)]\<rparr>) posix_world
           = (Inr (), self2, w2)
         \<and> written 0 (events w2) =
             written 0 (events posix_world)
             @ [''// Run 1'' @ nl,
                ''ok = simulateModel(stopTime=250, problem="ModelX");'' @ nl,
                ''if ok then'' @ nl,
                ''    savelog();'' @ nl,
                ''    dest = destination + "1/";'' @ nl,
                ''    createDirectory(dest);'' @ nl,
                ''    copy("dsin.txt", dest + "dsin.txt", true);'' @ nl,
                ''    copy("dslog.txt", dest + "dslog.txt", true);'' @ nl,
                ''    copy("dsres.mat", dest + "dsres.mat", true);'' @ nl,
                ''    copy("dymolalg.txt", dest + "dymolalg.txt", true);'' @ nl,
                ''    copy("dymosim", dest + "dymosim", true);'' @ nl,
                ''end if;'' @ nl,
                ''clearlog();'' @ nl @ nl])\<close>
proof -
  have n: "''stopTime'' \<notin> set internal_fields"
    by (simp add: internal_fields_def)
  have c: "''stopTime'' \<notin> set class_attributes \<and> ''stopTime'' \<notin> set []"
    by (simp add: class_attributes_def)
  have ex: "u_mos example_writer = 0" "u_run_log example_writer = 1"
    "n_runs example_writer = 0" "u_command example_writer = ''simulateModel''"
    "u_options example_writer = []" "u_results example_writer = default_results"
    by (simp_all add: example_writer_def)
  have op: "\<not> closed (u_mos example_writer) (events posix_world)
            \<and> \<not> closed (u_run_log example_writer) (events posix_world)
            \<and> u_mos example_writer \<noteq> u_run_log example_writer"
    using dymola_script_init_open [OF posix_init] by simp
  have hp: "heap posix_world default_results
              = [''dsin.txt'', ''dslog.txt'', ''dsres.mat'', ''dymolalg.txt'', ''dymosim'']"
    using replace_pct_x_default [of "[]"]
    by (simp add: dymola_script_init_result(3) [OF posix_init] fresh_world_simps
        posix_env_simps)
  from assignment_updates_the_options [OF n, of example_writer "PInt 250" "[]"]
  obtain self' where s: "dymola_script_setattr example_writer ''stopTime'' (PInt 250) = Some self'"
    and o: "u_options self' = dict_set (u_options example_writer) ''stopTime'' (PInt 250)"
    and r: "\<And>env calls w.
              \<not> closed (u_mos example_writer) (events w)
              \<and> \<not> closed (u_run_log example_writer) (events w)
              \<and> u_mos example_writer \<noteq> u_run_log example_writer
              \<Longrightarrow> \<exists>self2 w2.
                    runs env calls self' w = (Inr (), self2, w2)
                    \<and> u_options self2 = dict_set (u_options example_writer) ''stopTime'' (PInt 250)
                    \<and> written (u_mos example_writer) (events w2) =
                        written (u_mos example_writer) (events w)
                        @ concat (map (\<lambda>(i, model, params).
                            run_lines env (n_runs example_writer + int i)
                              (call_of (u_command example_writer)
                                 (dict_set (u_options example_writer) ''stopTime'' (PInt 250))
                                 (problem_of model params))
                              (heap w (u_results example_writer)))
                          (enumerate 1 calls))"
    and a: "''stopTime'' \<notin> set class_attributes \<and> ''stopTime'' \<notin> set []
              \<longrightarrow> read_attr [] self' ''stopTime'' = Inr (Value (PInt 250))"
    by blast
  have self': "self' = example_writer\<lparr>u_options := [(''stopTime'', PInt 250)]\<rparr>"
    using s n by (simp add: dymola_script_setattr_def ex)
  from r [OF op, of posix_env "[(Some ''ModelX'', [])]"]
  obtain self2 w2 where
    "runs posix_env [(Some ''ModelX'', [])] self' posix_world = (Inr (), self2, w2)"
    \<open>written 0 (events w2) =
             written 0 (events posix_world)
             @ [''// Run 1'' @ nl,
                ''ok = simulateModel(stopTime=250, problem="ModelX");'' @ nl,
                ''if ok then'' @ nl,
                ''    savelog();'' @ nl,
                ''    dest = destination + "1/";'' @ nl,
                ''    createDirectory(dest);'' @ nl,
                ''    copy("dsin.txt", dest + "dsin.txt", true);'' @ nl,
                ''    copy("dslog.txt", dest + "dslog.txt", true);'' @ nl,
                ''    copy("dsres.mat", dest + "dsres.mat", true);'' @ nl,
                ''    copy("dymolalg.txt", dest + "dymolalg.txt", true);'' @ nl,
                ''    copy("dymosim", dest + "dymosim", true);'' @ nl,
                ''end if;'' @ nl,
                ''clearlog();'' @ nl @ nl]\<close>
    by (auto simp: ex hp run_lines_def call_of_def problem_of_def ParamDict_str_def
        item_str_def str_int_def str_nat.simps dq_def posix_env_simps)
  with n s a c self' show ?thesis by auto
qed

text \<open>
  Claim C5 as stated also says that reading such an attribute returns the stored value.
  \<open>run\<close> is not one of the six internal fields: the assignment \<open>self.run = 5\<close> stores 5
  in the options, and reading \<open>self.run\<close> afterwards still gives the method of the
  class, because \<open>__getattr__\<close> is consulted only for names that normal lookup does not
  find, while \<open>__setattr__\<close> receives every assignment.
\<close>

theorem assigning_run_counterexample:
  "''run'' \<notin> set internal_fields
   \<and> dymola_script_setattr example_writer ''run'' (PInt 5)
       = Some (example_writer\<lparr>u_options := [(''run'', PInt 5)]\<rparr>)
   \<and> read_attr [] (example_writer\<lparr>u_options := [(''run'', PInt 5)]\<rparr>) ''run''
       = Inr (ClassAttribute ''run'')
   \<and> read_attr [] (example_writer\<lparr>u_options := [(''run'', PInt 5)]\<rparr>) ''run''
       \<noteq> Inr (Value (PInt 5))"
  by (simp add: read_attr_def internal_fields_def class_attributes_def example_writer_def
      dymola_script_setattr_def)

section \<open>Entries without a value\<close>

text \<open>
  Claim C7.  An entry whose value is \<open>None\<close> leaves no trace in what \<open>ParamDict\<close>
  writes: the string is the one of the dictionary without the entry, at the top and at
  every depth of nesting (\<open>drop_none\<close> removes all such entries).  In \<open>run\<close> this holds
  for the parameters of the model and for the options of the command: the command in
  the script and the line in the run log are those of the dictionaries without their
  \<open>None\<close> entries, and a model that is \<open>None\<close> leaves no \<open>problem\<close> in the command.
\<close>

theorem none_entries_are_omitted:
  "ParamDict_str (d1 @ (k, PNone) # d2) = ParamDict_str (d1 @ d2)
   \<and> ParamDict_str (drop_none d) = ParamDict_str d
   \<and> run env model (drop_none params) self w = run env model params self w
   \<and> call_of command options problem =
       command @ ParamDict_str (drop_none
         (dict_set options ''problem'' (case problem of None \<Rightarrow> PNone | Some p \<Rightarrow> PStr p)))
   \<and> call_of command options None = command @ ParamDict_str (dict_set options ''problem'' PNone)
   \<and> log_line n command (drop_none options) problem = log_line n command options problem
   \<and> ((''problem'', PNone) \<notin> set (u_options self) \<longrightarrow>
        fst (run env model params (self\<lparr>u_options := drop_none (u_options self)\<rparr>) w)
          = fst (run env model params self w)
        \<and> snd (snd (run env model params (self\<lparr>u_options := drop_none (u_options self)\<rparr>) w))
          = snd (snd (run env model params self w)))"
proof -
  have a: "ParamDict_str (d1 @ (k, PNone) # d2) = ParamDict_str (d1 @ d2)"
    by (simp add: ParamDict_str_def flatten_append)
  have p: "problem_of model (drop_none params) = problem_of model params"
    by (simp add: problem_of_def ParamDict_str_drop_none split: option.splits)
  have r: "run env model (drop_none params) self w = run env model params self w"
    by (simp add: run_def p)
  have c: "call_of command options problem =
       command @ ParamDict_str (drop_none
         (dict_set options ''problem'' (case problem of None \<Rightarrow> PNone | Some p \<Rightarrow> PStr p)))"
    by (simp add: call_of_def ParamDict_str_drop_none)
  have c': "call_of command options None
              = command @ ParamDict_str (dict_set options ''problem'' PNone)"
    by (simp add: call_of_def)
  have l: "log_line n command (drop_none options) problem = log_line n command options problem"
    by (simp add: log_line_def ParamDict_str_drop_none)
  have o: "fst (run env model params (self\<lparr>u_options := drop_none (u_options self)\<rparr>) w)
             = fst (run env model params self w)
           \<and> snd (snd (run env model params (self\<lparr>u_options := drop_none (u_options self)\<rparr>) w))
             = snd (snd (run env model params self w))"
    if "(''problem'', PNone) \<notin> set (u_options self)"
  proof -
    have "call_of (u_command self) (drop_none (u_options self)) (problem_of model params)
            = call_of (u_command self) (u_options self) (problem_of model params)"
      using that by (simp add: call_of_def ParamDict_str_def flatten_dict_set_drop_none)
    moreover
    have "log_line i (u_command self) (drop_none (u_options self)) q
            = log_line i (u_command self) (u_options self) q" for i q
      by (simp add: log_line_def ParamDict_str_drop_none)
    ultimately show ?thesis
      by (simp add: run_def Let_def split: prod.splits sum.splits)
  qed
  from a ParamDict_str_drop_none r c c' l o show ?thesis by blast
qed

theorem none_entries_are_omitted_witness:
  "(''problem'', PNone) \<notin> set [(''stopTime'', PNone), (''method'', PStr ''Euler'')]
   \<and> ParamDict_str ([(''a'', PInt 1)] @ (''b'', PNone)
                      # [(''c'', PDict [(''d'', PNone), (''e'', PInt 2)])]) = ''(a=1, c.e=2)''
   \<and> call_of ''simulateModel'' [(''stopTime'', PNone), (''method'', PStr ''Euler'')] None
       = ''simulateModel(method=Euler)''
   \<and> snd (snd (run posix_env (Some ''M'') [(''x'', PNone)]
                 (example_writer\<lparr>u_options := [(''method'', PStr ''Euler'')]\<rparr>) posix_world))
       = snd (snd (run posix_env (Some ''M'') [(''x'', PNone)]
                 (example_writer\<lparr>u_options :=
                    [(''stopTime'', PNone), (''method'', PStr ''Euler'')]\<rparr>) posix_world))"
proof -
  let ?self = "example_writer\<lparr>u_options := [(''stopTime'', PNone), (''method'', PStr ''Euler'')]\<rparr>"
  note t = none_entries_are_omitted
             [where ?d1.0 = "[(''a'', PInt 1)]" and k = "''b''"
                and ?d2.0 = "[(''c'', PDict [(''d'', PNone), (''e'', PInt 2)])]"
                and self = ?self and env = posix_env and model = "Some ''M''"
                and params = "[(''x'', PNone)]" and w = posix_world
                and command = "''simulateModel''"
                and options = "[(''stopTime'', PNone), (''method'', PStr ''Euler'')]"]
  have h: "(''problem'', PNone) \<notin> set [(''stopTime'', PNone), (''method'', PStr ''Euler'')]"
    by simp
  have h': "(''problem'', PNone) \<notin> set (u_options ?self)"
    by simp
  have a: "ParamDict_str ([(''a'', PInt 1)] @ (''b'', PNone)
                      # [(''c'', PDict [(''d'', PNone), (''e'', PInt 2)])]) = ''(a=1, c.e=2)''"
    using t by (simp add: ParamDict_str_def item_str_def str_int_def str_nat.simps)
  have c: "call_of ''simulateModel'' [(''stopTime'', PNone), (''method'', PStr ''Euler'')] None
             = ''simulateModel(method=Euler)''"
    using t by (simp add: ParamDict_str_def item_str_def)
  have r: "snd (snd (run posix_env (Some ''M'') [(''x'', PNone)]
                 (?self\<lparr>u_options := drop_none (u_options ?self)\<rparr>) posix_world))
       = snd (snd (run posix_env (Some ''M'') [(''x'', PNone)] ?self posix_world))"
    using t h' by blast
  from h a c r show ?thesis by simp
qed

section \<open>The experiments of the generator\<close>

text \<open>
  Claim C6, amended.  For every list of \<open>m\<close> models, every mapping of parameters in
  which each key has at least one candidate (a scalar counts as one) and every mapping of
  options, the generator yields \<open>m \<times> n1 \<times> n2 \<times> \<dots>\<close> experiments times the number of
  combinations of the options, which is 1 when there are no options or each has a single
  candidate.  The experiments are exactly the triples of a listed model, a choice of one
  candidate for every parameter and a choice of one candidate for every option.  They
  come in one fixed order, that of the inputs: the models as listed, for each model the
  combinations of the parameters and for each of these the combinations of the options;
  the combinations of a mapping are numbered as the numerals of a mixed radix in which
  the first key of the mapping is the most significant digit and the digit of a key is
  the position of its candidate (\<open>nth_choice\<close>).  When a key of the parameters has no
  candidate, the generator fails.
\<close>

theorem gen_experiments_full_factorial:
  "((\<forall>kc \<in> set params. candidate_list (snd kc) \<noteq> []) \<longrightarrow>
      (\<exists>es.
         gen_experiments models params args = Inr es
         \<and> length es =
             length models
             * prod_list (map (\<lambda>kc. length (candidate_list (snd kc))) params)
             * prod_list (map (\<lambda>kc. length (candidate_list (snd kc))) args)
         \<and> (args = [] \<longrightarrow>
              length es =
                length models
                * prod_list (map (\<lambda>kc. length (candidate_list (snd kc))) params))
         \<and> set es =
             {(m, p, a). m \<in> set models
                \<and> map fst p = map fst params
                \<and> (\<forall>i < length params. snd (p ! i) \<in> set (candidate_list (snd (params ! i))))
                \<and> map fst a = map fst args
                \<and> (\<forall>i < length args. snd (a ! i) \<in> set (candidate_list (snd (args ! i))))}
         \<and> es =
             concat (map (\<lambda>i. concat (map (\<lambda>j. map (\<lambda>k.
                        (models ! i, nth_choice params j, nth_choice args k))
                      [0..<prod_list (counts args)])
                    [0..<prod_list (counts params)]))
               [0..<length models])))
   \<and> ((\<exists>kc \<in> set params. candidate_list (snd kc) = []) \<longrightarrow>
        gen_experiments models params args = Inl EmptySequence)"
proof (intro conjI impI)
  assume ne: "\<forall>kc \<in> set params. candidate_list (snd kc) \<noteq> []"
  let ?es = "concat (map (\<lambda>m.
                  concat (map (\<lambda>p. map (\<lambda>a. (m, p, a)) (combinations args))
                            (combinations params)))
                  models)"
  have g: "gen_experiments models params args = Inr ?es"
    using ne by (simp add: gen_experiments_def list_ex_iff)
  have "length (concat (map (\<lambda>p. map (\<lambda>a. (m, p, a)) (combinations args))
                            (combinations params)))
          = length (combinations params) * length (combinations args)" for m :: string
    by (rule length_concat_map_const) simp
  then have "length ?es
          = length models * (length (combinations params) * length (combinations args))"
    by (intro length_concat_map_const) simp
  then have l: "length ?es =
               length models
               * prod_list (map (\<lambda>kc. length (candidate_list (snd kc))) params)
               * prod_list (map (\<lambda>kc. length (candidate_list (snd kc))) args)"
    by (simp add: length_combinations)
  have s: "set ?es =
             {(m, p, a). m \<in> set models \<and> p \<in> set (combinations params)
                \<and> a \<in> set (combinations args)}"
    by auto
  have s': "set ?es =
               {(m, p, a). m \<in> set models
                  \<and> map fst p = map fst params
                  \<and> (\<forall>i < length params. snd (p ! i) \<in> set (candidate_list (snd (params ! i))))
                  \<and> map fst a = map fst args
                  \<and> (\<forall>i < length args. snd (a ! i) \<in> set (candidate_list (snd (args ! i))))}"
    unfolding s set_combinations by auto
  have l': "args = [] \<longrightarrow>
              length ?es =
                length models
                * prod_list (map (\<lambda>kc. length (candidate_list (snd kc))) params)"
  proof
    assume "args = []"
    then have "prod_list (map (\<lambda>kc. length (candidate_list (snd kc))) args) = 1"
      by simp
    with l show "length ?es =
                length models
                * prod_list (map (\<lambda>kc. length (candidate_list (snd kc))) params)"
      by (simp only: mult_1_right)
  qed
  show "\<exists>es.
         gen_experiments models params args = Inr es
         \<and> length es =
             length models
             * prod_list (map (\<lambda>kc. length (candidate_list (snd kc))) params)
             * prod_list (map (\<lambda>kc. length (candidate_list (snd kc))) args)
         \<and> (args = [] \<longrightarrow>
              length es =
                length models
                * prod_list (map (\<lambda>kc. length (candidate_list (snd kc))) params))
         \<and> set es =
             {(m, p, a). m \<in> set models
                \<and> map fst p = map fst params
                \<and> (\<forall>i < length params. snd (p ! i) \<in> set (candidate_list (snd (params ! i))))
                \<and> map fst a = map fst args
                \<and> (\<forall>i < length args. snd (a ! i) \<in> set (candidate_list (snd (args ! i))))}
         \<and> es =
             concat (map (\<lambda>i. concat (map (\<lambda>j. map (\<lambda>k.
                        (models ! i, nth_choice params j, nth_choice args k))
                      [0..<prod_list (counts args)])
                    [0..<prod_list (counts params)]))
               [0..<length models])"
    by (intro exI [of _ ?es] conjI)
       (rule g, rule l, rule l', rule s', rule product_enumerated)
next
  assume "\<exists>kc \<in> set params. candidate_list (snd kc) = []"
  then show "gen_experiments models params args = Inl EmptySequence"
    by (simp add: gen_experiments_def list_ex_iff)
qed

theorem gen_experiments_full_factorial_witness:
  "gen_experiments [''ChuaCircuit'']
       [(''L.L'', Sequence [PInt 15, PInt 21]), (''C1.C'', Sequence [PInt 8, PInt 10])]
       [(''stopTime'', Scalar (PInt 2500))]
     = Inr [(''ChuaCircuit'', [(''L.L'', PInt 15), (''C1.C'', PInt 8)],
               [(''stopTime'', PInt 2500)]),
            (''ChuaCircuit'', [(''L.L'', PInt 15), (''C1.C'', PInt 10)],
               [(''stopTime'', PInt 2500)]),
            (''ChuaCircuit'', [(''L.L'', PInt 21), (''C1.C'', PInt 8)],
               [(''stopTime'', PInt 2500)]),
            (''ChuaCircuit'', [(''L.L'', PInt 21), (''C1.C'', PInt 10)],
               [(''stopTime'', PInt 2500)])]
   \<and> gen_experiments [''ChuaCircuit'']
       [(''L.L'', Sequence [PInt 15, PInt 21]), (''C1.C'', Sequence [])]
       [(''stopTime'', Scalar (PInt 2500))]
     = Inl EmptySequence"
proof -
  let ?params = "[(''L.L'', Sequence [PInt 15, PInt 21]), (''C1.C'', Sequence [PInt 8, PInt 10])]"
  let ?args = "[(''stopTime'', Scalar (PInt 2500))]"
  have h: "\<forall>kc \<in> set ?params. candidate_list (snd kc) \<noteq> []"
    by simp
  have e: "\<exists>kc \<in> set [(''L.L'', Sequence [PInt 15, PInt 21]), (''C1.C'', Sequence [])].
             candidate_list (snd kc) = []"
    by simp
  have v: "concat (map (\<lambda>i. concat (map (\<lambda>j. map (\<lambda>k.
                        ([''ChuaCircuit''] ! i, nth_choice ?params j, nth_choice ?args k))
                      [0..<prod_list (counts ?args)])
                    [0..<prod_list (counts ?params)]))
               [0..<length [''ChuaCircuit'']])
           = [(''ChuaCircuit'', [(''L.L'', PInt 15), (''C1.C'', PInt 8)],
               [(''stopTime'', PInt 2500)]),
            (''ChuaCircuit'', [(''L.L'', PInt 15), (''C1.C'', PInt 10)],
               [(''stopTime'', PInt 2500)]),
            (''ChuaCircuit'', [(''L.L'', PInt 21), (''C1.C'', PInt 8)],
               [(''stopTime'', PInt 2500)]),
            (''ChuaCircuit'', [(''L.L'', PInt 21), (''C1.C'', PInt 10)],
               [(''stopTime'', PInt 2500)])]"
    by code_simp
  from gen_experiments_full_factorial [of ?params "[''ChuaCircuit'']" ?args] h
  obtain es where g: "gen_experiments [''ChuaCircuit''] ?params ?args = Inr es"
    and o: "es = concat (map (\<lambda>i. concat (map (\<lambda>j. map (\<lambda>k.
                        ([''ChuaCircuit''] ! i, nth_choice ?params j, nth_choice ?args k))
                      [0..<prod_list (counts ?args)])
                    [0..<prod_list (counts ?params)]))
               [0..<length [''ChuaCircuit'']])"
    by blast
  have "es = [(''ChuaCircuit'', [(''L.L'', PInt 15), (''C1.C'', PInt 8)],
               [(''stopTime'', PInt 2500)]),
            (''ChuaCircuit'', [(''L.L'', PInt 15), (''C1.C'', PInt 10)],
               [(''stopTime'', PInt 2500)]),
            (''ChuaCircuit'', [(''L.L'', PInt 21), (''C1.C'', PInt 8)],
               [(''stopTime'', PInt 2500)]),
            (''ChuaCircuit'', [(''L.L'', PInt 21), (''C1.C'', PInt 10)],
               [(''stopTime'', PInt 2500)])]"
    unfolding o by (rule v)
  moreover
  from gen_experiments_full_factorial
         [of "[(''L.L'', Sequence [PInt 15, PInt 21]), (''C1.C'', Sequence [])]"
             "[''ChuaCircuit'']" ?args] e
  have "gen_experiments [''ChuaCircuit'']
          [(''L.L'', Sequence [PInt 15, PInt 21]), (''C1.C'', Sequence [])] ?args
        = Inl EmptySequence"
    by blast
  ultimately show ?thesis using g by simp
qed

text \<open>
  Claim C6 as stated covers every parameter mapping, so also one with a key that has no
  candidate.  There the product of the counts is 0, and the generator does not yield an
  empty sequence of experiments: it fails, as the contract says.
\<close>

theorem gen_experiments_empty_sequence_counterexample:
  "gen_experiments [''ChuaCircuit''] [(''L.L'', Sequence [])] [] = Inl EmptySequence
   \<and> gen_experiments [''ChuaCircuit''] [(''L.L'', Sequence [])] [] \<noteq> Inr []"
  by (simp add: gen_experiments_def)

end
